theory Spec2Isabelle
  imports Main "HOL-Library.AList" "HOL-Library.Monad_Syntax"
begin

section \<open>JavaScript values\<close>

text \<open>
  The document handed to \<^verbatim>\<open>transformAll\<close> has the TypeScript type \<^verbatim>\<open>any\<close>: a tree
  decoded from JSON or YAML. An object is the list of its own enumerable properties in
  the order in which \<^verbatim>\<open>Object.keys\<close> and \<^verbatim>\<open>Object.entries\<close> enumerate them (for keys that
  are not array indices this is the order of the document), and its keys are distinct.
  Numbers are integers here: the module only tests a number for truthiness, and a
  fraction behaves like any other non-zero number. Strings are lists of code units
  below 256.
\<close>

datatype json =
    JUndefined
  | JNull
  | JBool bool
  | JNum int
  | JStr string
  | JArr "json list"
  | JObj "(string \<times> json) list"

text \<open>\<^verbatim>\<open>if (x)\<close>, \<^verbatim>\<open>x && y\<close>, \<^verbatim>\<open>x || y\<close> and \<^verbatim>\<open>x ? a : b\<close> test this.\<close>

fun truthy :: "json \<Rightarrow> bool" where
  "truthy JUndefined = False"
| "truthy JNull = False"
| "truthy (JBool b) = b"
| "truthy (JNum n) = (n \<noteq> 0)"
| "truthy (JStr s) = (s \<noteq> [])"
| "truthy (JArr xs) = True"
| "truthy (JObj kvs) = True"

fun nullish :: "json \<Rightarrow> bool" where
  "nullish JUndefined = True"
| "nullish JNull = True"
| "nullish (JBool b) = False"
| "nullish (JNum n) = False"
| "nullish (JStr s) = False"
| "nullish (JArr xs) = False"
| "nullish (JObj kvs) = False"

text \<open>
  \<^verbatim>\<open>o.k\<close> for the property names this module reads (\<^verbatim>\<open>paths\<close>, \<^verbatim>\<open>components\<close>,
  \<^verbatim>\<open>parameters\<close>, \<^verbatim>\<open>definitions\<close>, \<^verbatim>\<open>responses\<close>, \<^verbatim>\<open>schemas\<close>, \<^verbatim>\<open>requestBodies\<close>,
  \<^verbatim>\<open>headers\<close>, \<^verbatim>\<open>webhooks\<close>, \<^verbatim>\<open>description\<close>): none of them is an index or a built-in
  property of an array, string, number or boolean, so on those the result is
  \<^verbatim>\<open>undefined\<close>. Reading a property of \<^verbatim>\<open>null\<close> or \<^verbatim>\<open>undefined\<close> throws a TypeError, the
  only exception this module can raise by itself: \<open>None\<close> stands for it.
\<close>

definition ownProp :: "(string \<times> json) list \<Rightarrow> string \<Rightarrow> json" where
  "ownProp kvs k = (case map_of kvs k of None \<Rightarrow> JUndefined | Some v \<Rightarrow> v)"

fun getProp :: "json \<Rightarrow> string \<Rightarrow> json option" where
  "getProp JUndefined k = None"
| "getProp JNull k = None"
| "getProp (JObj kvs) k = Some (ownProp kvs k)"
| "getProp (JBool b) k = Some JUndefined"
| "getProp (JNum n) k = Some JUndefined"
| "getProp (JStr s) k = Some JUndefined"
| "getProp (JArr xs) k = Some JUndefined"

text \<open>Decimal rendering of an array index, as in the keys of an array or a string.\<close>

fun showNat :: "nat \<Rightarrow> string" where
  "showNat n =
     (if n < 10 then [char_of (48 + n)]
      else showNat (n div 10) @ [char_of (48 + n mod 10)])"

declare showNat.simps [simp del]

text \<open>
  \<^verbatim>\<open>Object.entries(x)\<close>: the properties of an object, the indexed elements of an array,
  the indexed characters of a string, nothing for a number or a boolean, and a TypeError
  for \<^verbatim>\<open>null\<close> and \<^verbatim>\<open>undefined\<close>. \<^verbatim>\<open>Object.keys(x)\<close> is its first projection.
\<close>

fun objectEntries :: "json \<Rightarrow> (string \<times> json) list option" where
  "objectEntries JUndefined = None"
| "objectEntries JNull = None"
| "objectEntries (JObj kvs) = Some kvs"
| "objectEntries (JArr xs) = Some (zip (map showNat [0..<length xs]) xs)"
| "objectEntries (JStr s) = Some (zip (map showNat [0..<length s]) (map (\<lambda>c. JStr [c]) s))"
| "objectEntries (JBool b) = Some []"
| "objectEntries (JNum n) = Some []"

definition objectKeys :: "json \<Rightarrow> string list option" where
  "objectKeys x = map_option (map fst) (objectEntries x)"

section \<open>Strings\<close>

abbreviation NL :: string where
  "NL \<equiv> [CHR 0x0A]"

abbreviation DQ :: string where
  "DQ \<equiv> [CHR 0x22]"

text \<open>
  \<^verbatim>\<open>String.prototype.trim\<close> removes WhiteSpace and LineTerminator code points from both
  ends. Below 256 these are TAB, LF, VT, FF, CR, SP and NBSP.
\<close>

definition isWhiteSpace :: "char \<Rightarrow> bool" where
  "isWhiteSpace c \<longleftrightarrow>
     c \<in> set [CHR 0x09, CHR 0x0A, CHR 0x0B, CHR 0x0C, CHR 0x0D, CHR 0x20, CHR 0xA0]"

definition trim :: "string \<Rightarrow> string" where
  "trim s = rev (dropWhile isWhiteSpace (rev (dropWhile isWhiteSpace s)))"

section \<open>Context, operation registry and output\<close>

text \<open>
  \<^verbatim>\<open>GlobalContext\<close>, with the options that \<^verbatim>\<open>transformAll\<close> reads and the additions that
  it injects by \<^verbatim>\<open>{...ctx, required}\<close> and \<^verbatim>\<open>{...ctx, pathItem, globalParameters}\<close>; a
  context that was given no \<^verbatim>\<open>required\<close> or \<^verbatim>\<open>pathItem\<close> has \<open>None\<close> there, and
  \<^verbatim>\<open>undefined\<close> as its \<^verbatim>\<open>globalParameters\<close>. The other options of the context are the
  extension of the record. A spread with an override is a record update.
\<close>

type_synonym OperationObject = "(string \<times> json) list"
type_synonym PathItemObject = "(string \<times> json) list"

record GlobalContext =
  version :: int
  immutableTypes :: bool
  rawSchema :: bool
  required :: "string set option"
  globalParameters :: json
  pathItem :: "PathItemObject option"

text \<open>
  The registry \<^verbatim>\<open>operations\<close>: an object from operation id to the operation and the path
  item that owns it, created empty at line 15 and filled by the paths emitter. It is the
  list of its entries in the order in which the ids were first registered, which is the
  order in which the operations were first discovered; its keys are distinct.
\<close>

type_synonym registry = "(string \<times> OperationObject \<times> PathItemObject) list"

text \<open>
  \<^verbatim>\<open>Object.keys\<close> on an object that the program has filled itself: the keys that are array
  indices (the canonical decimal numeral of an integer from 0 to 4294967294) come first, in
  ascending numeric order, and the other keys follow in the order of their creation.
\<close>

definition isDigit :: "char \<Rightarrow> bool" where
  "isDigit c \<longleftrightarrow> c \<in> set ''0123456789''"

definition readNat :: "string \<Rightarrow> nat" where
  "readNat k = foldl (\<lambda>n c. 10 * n + (of_char c - 48)) 0 k"

definition isArrayIndex :: "string \<Rightarrow> bool" where
  "isArrayIndex k \<longleftrightarrow>
     k \<noteq> [] \<and> list_all isDigit k \<and> (k = ''0'' \<or> hd k \<noteq> CHR ''0'') \<and> readNat k < 4294967295"

definition ownPropertyOrder :: "(string \<times> 'a) list \<Rightarrow> (string \<times> 'a) list" where
  "ownPropertyOrder entries =
     sort_key (\<lambda>entry. readNat (fst entry)) (filter (\<lambda>entry. isArrayIndex (fst entry)) entries)
     @ filter (\<lambda>entry. \<not> isArrayIndex (fst entry)) entries"

text \<open>
  \<^verbatim>\<open>output\<close>, a \<^verbatim>\<open>Record<string, string>\<close>, as the list of its entries in insertion order.
  \<^verbatim>\<open>output.k = v\<close> replaces the value of an existing key in place and puts a new key last;
  \<^verbatim>\<open>output.k += s\<close> reads the key first, and a missing key reads as \<^verbatim>\<open>undefined\<close>.
\<close>

type_synonym Output = "(string \<times> string) list"

definition assign :: "string \<Rightarrow> string \<Rightarrow> Output \<Rightarrow> Output" where
  "assign k v output = AList.update k v output"

definition appendTo :: "string \<Rightarrow> string \<Rightarrow> Output \<Rightarrow> Output" where
  "appendTo k s output =
     assign k ((case map_of output k of None \<Rightarrow> ''undefined'' | Some v \<Rightarrow> v) @ s) output"

text \<open>
  A \<^verbatim>\<open>for (const x of xs)\<close> loop whose body updates a state and may throw: the first
  exception ends the loop.
\<close>

fun forEach :: "'a list \<Rightarrow> ('a \<Rightarrow> 's \<Rightarrow> 's option) \<Rightarrow> 's \<Rightarrow> 's option" where
  "forEach [] body s = Some s"
| "forEach (x # xs) body s = do { s' \<leftarrow> body x s; forEach xs body s' }"

section \<open>Collaborators\<close>

text \<open>
  The functions that \<^verbatim>\<open>src/transform/index.ts\<close> imports from \<^verbatim>\<open>../utils.js\<close>,
  \<^verbatim>\<open>./headers.js\<close>, \<^verbatim>\<open>./operation.js\<close>, \<^verbatim>\<open>./paths.js\<close>, \<^verbatim>\<open>./request.js\<close>,
  \<^verbatim>\<open>./responses.js\<close> and \<^verbatim>\<open>./schema.js\<close> are parameters of the model: a collaborator is
  any function of its arguments, and one that throws is outside the model.
  \<^verbatim>\<open>transformPathsObj\<close> fills the registry that the context shares with it: it takes the
  registry and returns it updated, next to its text.
\<close>

record 'c collaborators =
  tsReadonly :: "bool \<Rightarrow> string"
  comment :: "json \<Rightarrow> string"
  transformHeaderObjMap :: "json \<Rightarrow> 'c GlobalContext_scheme \<Rightarrow> string"
  operationRequestType :: "string \<Rightarrow> OperationObject \<Rightarrow> 'c GlobalContext_scheme \<Rightarrow> string"
  queryStringType :: "string \<Rightarrow> OperationObject \<Rightarrow> 'c GlobalContext_scheme \<Rightarrow> string"
  transformOperationObj :: "OperationObject \<Rightarrow> 'c GlobalContext_scheme \<Rightarrow> string"
  getOperationId :: "json \<Rightarrow> string \<Rightarrow> string \<Rightarrow> string"
  getOperationIdFromPath :: "string \<Rightarrow> string"
  transformPathsObj :: "json \<Rightarrow> 'c GlobalContext_scheme \<Rightarrow> registry \<Rightarrow> string \<times> registry"
  transformRequestBodies :: "json \<Rightarrow> 'c GlobalContext_scheme \<Rightarrow> string"
  getResponseTypes :: "string \<Rightarrow> json \<Rightarrow> string"
  transformResponsesObj :: "json \<Rightarrow> 'c GlobalContext_scheme \<Rightarrow> string"
  transformSchemaObjMap :: "json \<Rightarrow> 'c GlobalContext_scheme \<Rightarrow> string"

section \<open>transformAll\<close>

definition httpMethods :: "string list" where
  "httpMethods = [''get'', ''put'', ''post'', ''delete'', ''options'', ''head'', ''patch'', ''trace'']"

text \<open>\<^verbatim>\<open>(schema.components && schema.components.parameters) || schema.parameters\<close>\<close>

definition globalParametersOf :: "json \<Rightarrow> json option" where
  "globalParametersOf schema = do {
     components \<leftarrow> getProp schema ''components'';
     both \<leftarrow> (if truthy components then getProp components ''parameters'' else Some components);
     if truthy both then Some both else getProp schema ''parameters''
   }"

text \<open>Lines 32 to 40: \<^verbatim>\<open>#/paths\<close>. The registry comes back filled.\<close>

definition pathsSection ::
  "'c collaborators \<Rightarrow> json \<Rightarrow> 'c GlobalContext_scheme \<Rightarrow> Output \<Rightarrow> registry
     \<Rightarrow> (Output \<times> registry) option" where
  "pathsSection em schema ctx output operations = do {
     let output = assign ''paths'' [] output;
     paths \<leftarrow> getProp schema ''paths'';
     if truthy paths then do {
       gp \<leftarrow> globalParametersOf schema;
       let (text, operations) = transformPathsObj em paths (ctx\<lparr>globalParameters := gp\<rparr>) operations;
       Some (appendTo ''paths'' text output, operations)
     } else Some (output, operations)
   }"

text \<open>Lines 43 to 65: \<^verbatim>\<open>case 2\<close> of the switch on the version.\<close>

definition version2Sections ::
  "'c collaborators \<Rightarrow> json \<Rightarrow> 'c GlobalContext_scheme \<Rightarrow> Output \<Rightarrow> Output option" where
  "version2Sections em schema ctx output = do {
     definitions \<leftarrow> getProp schema ''definitions'';
     output \<leftarrow> (if truthy definitions then do {
         ks \<leftarrow> objectKeys definitions;
         Some (assign ''definitions''
           (transformSchemaObjMap em definitions (ctx\<lparr>required := Some (set ks)\<rparr>)) output)
       } else Some output);
     parameters \<leftarrow> getProp schema ''parameters'';
     output \<leftarrow> (if truthy parameters then do {
         ks \<leftarrow> objectKeys parameters;
         Some (assign ''parameters''
           (transformSchemaObjMap em parameters (ctx\<lparr>required := Some (set ks)\<rparr>)) output)
       } else Some output);
     responses \<leftarrow> getProp schema ''responses'';
     Some (if truthy responses
       then assign ''responses'' (transformResponsesObj em responses ctx) output
       else output)
   }"

text \<open>Lines 66 to 112: \<^verbatim>\<open>case 3\<close>, where \<open>ro\<close> is the constant \<^verbatim>\<open>readonly\<close> of line 13.\<close>

definition version3Sections ::
  "'c collaborators \<Rightarrow> json \<Rightarrow> 'c GlobalContext_scheme \<Rightarrow> string \<Rightarrow> Output \<Rightarrow> Output option" where
  "version3Sections em schema ctx ro output = do {
     let output = assign ''components'' [] output;
     components \<leftarrow> getProp schema ''components'';
     if truthy components then do {
       schemas \<leftarrow> getProp components ''schemas'';
       output \<leftarrow> (if truthy schemas then do {
           ks \<leftarrow> objectKeys schemas;
           Some (appendTo ''components''
             (''  '' @ ro @ ''schemas: {'' @ NL @ ''    ''
               @ transformSchemaObjMap em schemas (ctx\<lparr>required := Some (set ks)\<rparr>)
               @ NL @ ''  }'' @ NL) output)
         } else Some output);
       responses \<leftarrow> getProp components ''responses'';
       let output = (if truthy responses
         then appendTo ''components''
             (''  '' @ ro @ ''responses: {'' @ NL @ ''    ''
               @ transformResponsesObj em responses ctx
               @ NL @ ''  }'' @ NL) output
         else output);
       parameters \<leftarrow> getProp components ''parameters'';
       output \<leftarrow> (if truthy parameters then do {
           ks \<leftarrow> objectKeys parameters;
           Some (appendTo ''components''
             (''  '' @ ro @ ''parameters: {'' @ NL @ ''    ''
               @ transformSchemaObjMap em parameters (ctx\<lparr>required := Some (set ks)\<rparr>)
               @ NL @ ''  }'' @ NL) output)
         } else Some output);
       requestBodies \<leftarrow> getProp components ''requestBodies'';
       let output = (if truthy requestBodies
         then appendTo ''components''
             (''  '' @ ro @ ''requestBodies: {'' @ NL @ ''    ''
               @ transformRequestBodies em requestBodies ctx
               @ NL @ ''  }'' @ NL) output
         else output);
       headers \<leftarrow> getProp components ''headers'';
       Some (if truthy headers
         then appendTo ''components''
             (''  '' @ ro @ ''headers: {'' @ NL @ ''    ''
               @ transformHeaderObjMap em headers (ctx\<lparr>required := Some {}\<rparr>)
               @ NL @ ''  }'' @ NL) output
         else output)
     } else Some output
   }"

text \<open>Lines 42 to 113: the switch has no default, so any other version leaves the output.\<close>

definition versionSections ::
  "'c collaborators \<Rightarrow> json \<Rightarrow> 'c GlobalContext_scheme \<Rightarrow> string \<Rightarrow> Output \<Rightarrow> Output option" where
  "versionSections em schema ctx ro output =
     (if version ctx = 2 then version2Sections em schema ctx output
      else if version ctx = 3 then version3Sections em schema ctx ro output
      else Some output)"

text \<open>
  Lines 115 to 127: \<^verbatim>\<open>#/operations\<close>. The loop runs over \<^verbatim>\<open>Object.keys(operations)\<close> and
  reads \<^verbatim>\<open>operations[id]\<close>, that is over the entries of the registry in the order of
  \<^verbatim>\<open>Object.keys\<close>; \<open>operationsStep\<close> is its body (lines 119 to 125).
\<close>

definition operationsStep ::
  "'c collaborators \<Rightarrow> json \<Rightarrow> 'c GlobalContext_scheme \<Rightarrow> string
     \<Rightarrow> string \<times> OperationObject \<times> PathItemObject \<Rightarrow> Output \<Rightarrow> Output option" where
  "operationsStep em schema ctx ro entry output =
     (case entry of (opId, operation, item) \<Rightarrow> do {
        let output = (if truthy (ownProp operation ''description'')
          then appendTo ''operations'' (comment em (ownProp operation ''description'')) output
          else output);
        gp \<leftarrow> globalParametersOf schema;
        Some (appendTo ''operations''
          (''  '' @ ro @ DQ @ opId @ DQ @ '': {'' @ NL @ ''    ''
            @ transformOperationObj em operation (ctx\<lparr>pathItem := Some item, globalParameters := gp\<rparr>)
            @ NL @ ''  }'' @ NL) output)
      })"

definition operationsSection ::
  "'c collaborators \<Rightarrow> json \<Rightarrow> 'c GlobalContext_scheme \<Rightarrow> string \<Rightarrow> registry \<Rightarrow> Output
     \<Rightarrow> Output option" where
  "operationsSection em schema ctx ro operations output = do {
     let output = assign ''operations'' [] output;
     if ownPropertyOrder operations \<noteq> []
     then forEach (ownPropertyOrder operations) (operationsStep em schema ctx ro) output
     else Some output
   }"

text \<open>Lines 139 to 148: the text added to \<^verbatim>\<open>output.express\<close> for one operation.\<close>

definition expressText ::
  "'c collaborators \<Rightarrow> string \<Rightarrow> OperationObject \<Rightarrow> 'c GlobalContext_scheme \<Rightarrow> string" where
  "expressText em opId operation typeArgs =
     '' '' @ DQ @ opId @ DQ @ '': {'' @ NL
     @ ''    responses: ''
     @ (if truthy (ownProp operation ''responses'')
        then getResponseTypes em opId (ownProp operation ''responses'') else ''void'')
     @ '';'' @ NL
     @ ''    request: expressRequest<Request<'' @ operationRequestType em opId operation typeArgs
     @ ''>, SLocals, '' @ queryStringType em opId operation typeArgs @ ''>;'' @ NL
     @ ''    response: Response<express<SLocals, RLocals>['' @ DQ @ opId @ DQ @ '']['' @ DQ
     @ ''responses'' @ DQ @ '']>;'' @ NL
     @ ''    handler: (req: express<SLocals, RLocals>['' @ DQ @ opId @ DQ @ '']['' @ DQ
     @ ''request'' @ DQ @ ''], res: express<SLocals, RLocals>['' @ DQ @ opId @ DQ @ '']['' @ DQ
     @ ''response'' @ DQ @ '']) => void | Promise<void>;'' @ NL
     @ ''}'' @ NL"

text \<open>Line 158: the text added to \<^verbatim>\<open>output.handlers\<close> for one method of one path.\<close>

definition handlerText :: "'c collaborators \<Rightarrow> string \<Rightarrow> string \<Rightarrow> json \<Rightarrow> string" where
  "handlerText em path method op =
     '' '' @ method @ '': express<SLocals, RLocals>['' @ DQ @ getOperationId em op method path
     @ DQ @ '']['' @ DQ @ ''handler'' @ DQ @ '']'' @ NL"

text \<open>
  Lines 129 to 163: the express type definitions and, in the same branch, the handlers.
  \<open>expressStep\<close> is the body of the loop of lines 132 to 149, \<open>handlersMember\<close> the body of
  the loop of lines 156 to 160, \<open>handlersStep\<close> the body of the loop of lines 154 to 162.
\<close>

definition expressStep ::
  "'c collaborators \<Rightarrow> json \<Rightarrow> 'c GlobalContext_scheme
     \<Rightarrow> string \<times> OperationObject \<times> PathItemObject \<Rightarrow> Output \<Rightarrow> Output option" where
  "expressStep em schema ctx entry output =
     (case entry of (opId, operation, item) \<Rightarrow> do {
        gp \<leftarrow> globalParametersOf schema;
        let typeArgs = ctx\<lparr>pathItem := Some item, globalParameters := gp\<rparr>;
        Some (appendTo ''express'' (expressText em opId operation typeArgs) output)
      })"

definition handlersMember ::
  "'c collaborators \<Rightarrow> string \<Rightarrow> string \<times> json \<Rightarrow> Output \<Rightarrow> Output option" where
  "handlersMember em path member output =
     (case member of (method, op) \<Rightarrow>
        Some (if method \<in> set httpMethods
          then appendTo ''handlers'' (handlerText em path method op) output
          else output))"

definition handlersStep :: "'c collaborators \<Rightarrow> string \<times> json \<Rightarrow> Output \<Rightarrow> Output option" where
  "handlersStep em entry output =
     (case entry of (path, methods) \<Rightarrow> do {
        let output = appendTo ''handlers''
          ('' '' @ getOperationIdFromPath em path @ '': {'' @ NL) output;
        members \<leftarrow> objectEntries methods;
        output \<leftarrow> forEach members (handlersMember em path) output;
        Some (appendTo ''handlers'' ('' }'' @ NL) output)
      })"

definition expressSection ::
  "'c collaborators \<Rightarrow> json \<Rightarrow> 'c GlobalContext_scheme \<Rightarrow> registry \<Rightarrow> Output \<Rightarrow> Output option" where
  "expressSection em schema ctx operations output = do {
     let output = assign ''express'' [] output;
     if ownPropertyOrder operations \<noteq> [] then do {
       output \<leftarrow> forEach (ownPropertyOrder operations) (expressStep em schema ctx) output;
       let output = assign ''handlers'' [] output;
       paths \<leftarrow> getProp schema ''paths'';
       entries \<leftarrow> objectEntries paths;
       forEach entries (handlersStep em) output
     } else Some output
   }"

text \<open>
  Lines 165 to 170: every key of the output is trimmed. The values of the output are
  strings, so the test of \<^verbatim>\<open>typeof\<close> holds for every key.
\<close>

definition cleanup :: "Output \<Rightarrow> Output" where
  "cleanup output =
     fold (\<lambda>k output. case map_of output k of
                None \<Rightarrow> output
              | Some v \<Rightarrow> assign k (trim v) output)
       (map fst output) output"

text \<open>
  Lines 32 to 172: what follows the raw-schema mode, with the constant \<^verbatim>\<open>readonly\<close> of
  line 13. The registry and the output start empty (lines 14 and 15).
\<close>

definition fullDocument ::
  "'c collaborators \<Rightarrow> json \<Rightarrow> 'c GlobalContext_scheme \<Rightarrow> Output option" where
  "fullDocument em schema ctx = do {
     let ro = tsReadonly em (immutableTypes ctx);
     (output, operations) \<leftarrow> pathsSection em schema ctx [] [];
     output \<leftarrow> versionSections em schema ctx ro output;
     output \<leftarrow> operationsSection em schema ctx ro operations output;
     output \<leftarrow> expressSection em schema ctx operations output;
     Some (cleanup output)
   }"

text \<open>
  \<^verbatim>\<open>transformAll\<close>. In raw-schema mode the keys of the input are read before the switch
  on the version; versions 2 and 3 return from inside the switch, before the cleanup, and
  any other version goes on with line 32.
\<close>

definition transformAll ::
  "'c collaborators \<Rightarrow> json \<Rightarrow> 'c GlobalContext_scheme \<Rightarrow> Output option" where
  "transformAll em schema ctx =
     (if rawSchema ctx then do {
        ks \<leftarrow> objectKeys schema;
        if version ctx = 2 then
          Some (assign ''definitions''
            (transformSchemaObjMap em schema (ctx\<lparr>required := Some (set ks)\<rparr>)) [])
        else if version ctx = 3 then
          Some (assign ''schemas''
            (transformSchemaObjMap em schema (ctx\<lparr>required := Some (set ks)\<rparr>)) [])
        else fullDocument em schema ctx
      } else fullDocument em schema ctx)"

section \<open>transformSchema\<close>

text \<open>
  \<^verbatim>\<open>packages/openapi-typescript/src/transform/index.ts\<close>; its four imports are parameters
  as well, and its context is only handed on. \<^verbatim>\<open>Object.assign\<close> copies the entries of its
  second argument into the first.
\<close>

record 'x packageCollaborators =
  transformComponentsObject :: "json \<Rightarrow> 'x \<Rightarrow> string"
  transformExpress :: "json \<Rightarrow> 'x \<Rightarrow> Output"
  transformPathsObject :: "json \<Rightarrow> 'x \<Rightarrow> string"
  transformWebhooksObject :: "json \<Rightarrow> 'x \<Rightarrow> string"

definition objectAssign :: "Output \<Rightarrow> Output \<Rightarrow> Output" where
  "objectAssign target source = fold (\<lambda>(k, v) output. assign k v output) source target"

definition transformSchema :: "'x packageCollaborators \<Rightarrow> json \<Rightarrow> 'x \<Rightarrow> Output option" where
  "transformSchema pk schema ctx =
     (if \<not> truthy schema then Some []
      else do {
        let output = [];
        paths \<leftarrow> getProp schema ''paths'';
        let output = (if truthy paths
          then assign ''paths'' (transformPathsObject pk paths ctx) output
          else assign ''paths'' [] output);
        webhooks \<leftarrow> getProp schema ''webhooks'';
        let output = (if truthy webhooks
          then assign ''webhooks'' (transformWebhooksObject pk webhooks ctx) output
          else assign ''webhooks'' [] output);
        components \<leftarrow> getProp schema ''components'';
        let output = (if truthy components
          then assign ''components'' (transformComponentsObject pk components ctx) output
          else assign ''components'' [] output);
        Some (if truthy paths then objectAssign output (transformExpress pk paths ctx) else output)
      })"

section \<open>What a document produces\<close>

text \<open>
  The sections of the output written as expressions of the document, for the statements
  below. \<open>field\<close>, \<open>entriesOf\<close> and \<open>keysOf\<close> are the reads of a value that is known not to
  be \<^verbatim>\<open>null\<close> or \<^verbatim>\<open>undefined\<close>.
\<close>

definition field :: "json \<Rightarrow> string \<Rightarrow> json" where
  "field x k = (case getProp x k of None \<Rightarrow> JUndefined | Some v \<Rightarrow> v)"

definition entriesOf :: "json \<Rightarrow> (string \<times> json) list" where
  "entriesOf x = (case objectEntries x of None \<Rightarrow> [] | Some es \<Rightarrow> es)"

definition keysOf :: "json \<Rightarrow> string list" where
  "keysOf x = map fst (entriesOf x)"

definition globalParams :: "json \<Rightarrow> json" where
  "globalParams schema =
     (let components = field schema ''components'';
          both = (if truthy components then field components ''parameters'' else components)
      in if truthy both then both else field schema ''parameters'')"

text \<open>The text of the paths and the registry that the paths emitter leaves behind.\<close>

definition pathsResult ::
  "'c collaborators \<Rightarrow> json \<Rightarrow> 'c GlobalContext_scheme \<Rightarrow> string \<times> registry" where
  "pathsResult em schema ctx =
     (if truthy (field schema ''paths'')
      then transformPathsObj em (field schema ''paths'')
             (ctx\<lparr>globalParameters := globalParams schema\<rparr>) []
      else ([], []))"

definition registryOf :: "'c collaborators \<Rightarrow> json \<Rightarrow> 'c GlobalContext_scheme \<Rightarrow> registry" where
  "registryOf em schema ctx = snd (pathsResult em schema ctx)"

text \<open>A named container block, with the read-only modifier in front of the name.\<close>

definition containerBlock :: "string \<Rightarrow> string \<Rightarrow> string \<Rightarrow> string" where
  "containerBlock ro name body =
     ''  '' @ ro @ name @ '': {'' @ NL @ ''    '' @ body @ NL @ ''  }'' @ NL"

text \<open>
  The blocks of \<^verbatim>\<open>components\<close>: a sub-collection is present when its value is truthy, and
  each emitter gets the context that the code hands to it.
\<close>

definition componentBlocks :: "'c collaborators \<Rightarrow> json \<Rightarrow> 'c GlobalContext_scheme \<Rightarrow> string" where
  "componentBlocks em schema ctx =
     (let ro = tsReadonly em (immutableTypes ctx);
          sub = field (field schema ''components'')
      in (if truthy (sub ''schemas'')
          then containerBlock ro ''schemas'' (transformSchemaObjMap em (sub ''schemas'')
                 (ctx\<lparr>required := Some (set (keysOf (sub ''schemas'')))\<rparr>))
          else [])
       @ (if truthy (sub ''responses'')
          then containerBlock ro ''responses'' (transformResponsesObj em (sub ''responses'') ctx)
          else [])
       @ (if truthy (sub ''parameters'')
          then containerBlock ro ''parameters'' (transformSchemaObjMap em (sub ''parameters'')
                 (ctx\<lparr>required := Some (set (keysOf (sub ''parameters'')))\<rparr>))
          else [])
       @ (if truthy (sub ''requestBodies'')
          then containerBlock ro ''requestBodies''
                 (transformRequestBodies em (sub ''requestBodies'') ctx)
          else [])
       @ (if truthy (sub ''headers'')
          then containerBlock ro ''headers'' (transformHeaderObjMap em (sub ''headers'')
                 (ctx\<lparr>required := Some {}\<rparr>))
          else []))"

text \<open>
  The blocks of \<^verbatim>\<open>components\<close> as the specification words them: schemas, responses,
  parameters and requestBodies each rendered with \<^verbatim>\<open>required\<close> the set of its own keys,
  headers with the empty set.
\<close>

definition componentBlocksSpec ::
  "'c collaborators \<Rightarrow> json \<Rightarrow> 'c GlobalContext_scheme \<Rightarrow> string" where
  "componentBlocksSpec em schema ctx =
     (let ro = tsReadonly em (immutableTypes ctx);
          sub = field (field schema ''components'');
          own = (\<lambda>name. ctx\<lparr>required := Some (set (keysOf (sub name)))\<rparr>)
      in (if truthy (sub ''schemas'')
          then containerBlock ro ''schemas''
                 (transformSchemaObjMap em (sub ''schemas'') (own ''schemas''))
          else [])
       @ (if truthy (sub ''responses'')
          then containerBlock ro ''responses''
                 (transformResponsesObj em (sub ''responses'') (own ''responses''))
          else [])
       @ (if truthy (sub ''parameters'')
          then containerBlock ro ''parameters''
                 (transformSchemaObjMap em (sub ''parameters'') (own ''parameters''))
          else [])
       @ (if truthy (sub ''requestBodies'')
          then containerBlock ro ''requestBodies''
                 (transformRequestBodies em (sub ''requestBodies'') (own ''requestBodies''))
          else [])
       @ (if truthy (sub ''headers'')
          then containerBlock ro ''headers'' (transformHeaderObjMap em (sub ''headers'')
                 (ctx\<lparr>required := Some {}\<rparr>))
          else []))"

text \<open>The entries that the switch on the version adds to the output.\<close>

definition versionEntries :: "'c collaborators \<Rightarrow> json \<Rightarrow> 'c GlobalContext_scheme \<Rightarrow> Output" where
  "versionEntries em schema ctx =
     (if version ctx = 2 then
        (if truthy (field schema ''definitions'')
         then [(''definitions'', transformSchemaObjMap em (field schema ''definitions'')
                  (ctx\<lparr>required := Some (set (keysOf (field schema ''definitions'')))\<rparr>))]
         else [])
      @ (if truthy (field schema ''parameters'')
         then [(''parameters'', transformSchemaObjMap em (field schema ''parameters'')
                  (ctx\<lparr>required := Some (set (keysOf (field schema ''parameters'')))\<rparr>))]
         else [])
      @ (if truthy (field schema ''responses'')
         then [(''responses'', transformResponsesObj em (field schema ''responses'') ctx)]
         else [])
      else if version ctx = 3 then [(''components'', componentBlocks em schema ctx)]
      else [])"

text \<open>The text of one registry entry in \<^verbatim>\<open>operations\<close>, and of all of them.\<close>

definition operationText ::
  "'c collaborators \<Rightarrow> json \<Rightarrow> 'c GlobalContext_scheme
     \<Rightarrow> string \<times> OperationObject \<times> PathItemObject \<Rightarrow> string" where
  "operationText em schema ctx entry =
     (case entry of (opId, operation, item) \<Rightarrow>
        (if truthy (ownProp operation ''description'')
         then comment em (ownProp operation ''description'') else [])
        @ containerBlock (tsReadonly em (immutableTypes ctx)) (DQ @ opId @ DQ)
            (transformOperationObj em operation
               (ctx\<lparr>pathItem := Some item, globalParameters := globalParams schema\<rparr>)))"

definition operationsText :: "'c collaborators \<Rightarrow> json \<Rightarrow> 'c GlobalContext_scheme \<Rightarrow> string" where
  "operationsText em schema ctx =
     concat (map (operationText em schema ctx) (ownPropertyOrder (registryOf em schema ctx)))"

text \<open>
  The text of \<^verbatim>\<open>express\<close>: one record for each registry entry, in the order of
  \<^verbatim>\<open>Object.keys\<close>.
\<close>

definition expressRecords :: "'c collaborators \<Rightarrow> json \<Rightarrow> 'c GlobalContext_scheme \<Rightarrow> string" where
  "expressRecords em schema ctx =
     concat (map (\<lambda>(opId, operation, item). expressText em opId operation
                    (ctx\<lparr>pathItem := Some item, globalParameters := globalParams schema\<rparr>))
               (ownPropertyOrder (registryOf em schema ctx)))"

text \<open>
  The text of \<^verbatim>\<open>express\<close> as the specification words it: one record for each registry
  entry, in the order in which the operations were first discovered.
\<close>

definition expressRecordsDiscovered ::
  "'c collaborators \<Rightarrow> json \<Rightarrow> 'c GlobalContext_scheme \<Rightarrow> string" where
  "expressRecordsDiscovered em schema ctx =
     concat (map (\<lambda>(opId, operation, item). expressText em opId operation
                    (ctx\<lparr>pathItem := Some item, globalParameters := globalParams schema\<rparr>))
               (registryOf em schema ctx))"

text \<open>
  A record type of the express section as the specification words it: indexed by the
  operation id, with members given by name and type.
\<close>

definition recordType :: "string \<Rightarrow> (string \<times> string) list \<Rightarrow> string" where
  "recordType opId members =
     '' '' @ DQ @ opId @ DQ @ '': {'' @ NL
     @ concat (map (\<lambda>(name, ty). ''    '' @ name @ '': '' @ ty @ '';'' @ NL) members)
     @ ''}'' @ NL"

definition selfReference :: "string \<Rightarrow> string \<Rightarrow> string" where
  "selfReference opId member =
     ''express<SLocals, RLocals>['' @ DQ @ opId @ DQ @ '']['' @ DQ @ member @ DQ @ '']''"

definition expressMembers ::
  "'c collaborators \<Rightarrow> string \<Rightarrow> OperationObject \<Rightarrow> 'c GlobalContext_scheme
     \<Rightarrow> (string \<times> string) list" where
  "expressMembers em opId operation typeArgs =
     [(''responses'',
         if truthy (ownProp operation ''responses'')
         then getResponseTypes em opId (ownProp operation ''responses'') else ''void''),
      (''request'',
         ''expressRequest<Request<'' @ operationRequestType em opId operation typeArgs
         @ ''>, SLocals, '' @ queryStringType em opId operation typeArgs @ ''>''),
      (''response'', ''Response<'' @ selfReference opId ''responses'' @ ''>''),
      (''handler'',
         ''(req: '' @ selfReference opId ''request'' @ '', res: ''
         @ selfReference opId ''response'' @ '') => void | Promise<void>'')]"

text \<open>
  The text of \<^verbatim>\<open>handlers\<close>: one entry for each path, with the members of the path item
  that are HTTP methods, in the order of the path item.
\<close>

definition handlersEntry :: "'c collaborators \<Rightarrow> string \<times> json \<Rightarrow> string" where
  "handlersEntry em entry =
     (case entry of (path, methods) \<Rightarrow>
        '' '' @ getOperationIdFromPath em path @ '': {'' @ NL
        @ concat (map (\<lambda>(method, op). handlerText em path method op)
                    (filter (\<lambda>(method, op). method \<in> set httpMethods) (entriesOf methods)))
        @ '' }'' @ NL)"

definition handlersText :: "'c collaborators \<Rightarrow> json \<Rightarrow> string" where
  "handlersText em schema = concat (map (handlersEntry em) (entriesOf (field schema ''paths'')))"

text \<open>
  The entry of one path as the specification words it: the methods of the fixed set in
  their canonical order, those absent from the path item left out.
\<close>

definition handlersEntryCanonical :: "'c collaborators \<Rightarrow> string \<times> json \<Rightarrow> string" where
  "handlersEntryCanonical em entry =
     (case entry of (path, methods) \<Rightarrow>
        '' '' @ getOperationIdFromPath em path @ '': {'' @ NL
        @ concat (map (\<lambda>method. case map_of (entriesOf methods) method of
                          None \<Rightarrow> []
                        | Some op \<Rightarrow> handlerText em path method op) httpMethods)
        @ '' }'' @ NL)"

definition handlersTextCanonical :: "'c collaborators \<Rightarrow> json \<Rightarrow> string" where
  "handlersTextCanonical em schema =
     concat (map (handlersEntryCanonical em) (entriesOf (field schema ''paths'')))"

text \<open>
  The sections before the cleanup, in the order of their first assignment.
\<close>

definition sections :: "'c collaborators \<Rightarrow> json \<Rightarrow> 'c GlobalContext_scheme \<Rightarrow> Output" where
  "sections em schema ctx =
     [(''paths'', fst (pathsResult em schema ctx))]
     @ versionEntries em schema ctx
     @ [(''operations'', operationsText em schema ctx),
        (''express'', expressRecords em schema ctx)]
     @ (if registryOf em schema ctx \<noteq> [] then [(''handlers'', handlersText em schema)] else [])"

text \<open>
  A document on which \<^verbatim>\<open>transformAll\<close> throws no TypeError: it is not \<^verbatim>\<open>null\<close> or
  \<^verbatim>\<open>undefined\<close>, and neither is any of its path items.
\<close>

definition pathItems :: "json \<Rightarrow> json list" where
  "pathItems schema = map snd (entriesOf (field schema ''paths''))"

definition wellFormed :: "json \<Rightarrow> bool" where
  "wellFormed schema \<longleftrightarrow> \<not> nullish schema \<and> list_all (\<lambda>item. \<not> nullish item) (pathItems schema)"

text \<open>A string with no whitespace at either end.\<close>

definition trimmed :: "string \<Rightarrow> bool" where
  "trimmed s \<longleftrightarrow> (s = [] \<or> \<not> isWhiteSpace (hd s) \<and> \<not> isWhiteSpace (last s))"

text \<open>Section \<open>k\<close> of a result: the value of \<^verbatim>\<open>output[k]\<close>, when there is an output and the key.\<close>

definition sectionOf :: "Output option \<Rightarrow> string \<Rightarrow> string option" where
  "sectionOf result k = (case result of None \<Rightarrow> None | Some output \<Rightarrow> map_of output k)"

section \<open>Sample collaborators and documents\<close>

text \<open>
  Small collaborators for concrete runs. The schema emitter marks a key that is not
  required with a question mark; the responses and request body emitters say whether
  their context carries \<^verbatim>\<open>required\<close>; the paths emitter registers every HTTP method of
  every path item, path by path, under the \<^verbatim>\<open>operationId\<close> of the operation when that is a
  string and under the id built from method and path otherwise.
\<close>

definition sampleSchemaObjMap :: "json \<Rightarrow> GlobalContext \<Rightarrow> string" where
  "sampleSchemaObjMap x c =
     concat (map (\<lambda>k. k @ (case required c of None \<Rightarrow> ''?''
                              | Some r \<Rightarrow> if k \<in> r then [] else ''?'') @ '': {}; '')
               (keysOf x))"

definition sampleOperationId :: "json \<Rightarrow> string \<Rightarrow> string \<Rightarrow> string" where
  "sampleOperationId op method path =
     (case field op ''operationId'' of JStr s \<Rightarrow> s | _ \<Rightarrow> method @ path)"

definition sampleRegister :: "json \<Rightarrow> registry" where
  "sampleRegister paths =
     concat (map (\<lambda>(path, item).
         map (\<lambda>(method, op). (sampleOperationId op method path, entriesOf op, entriesOf item))
           (filter (\<lambda>(method, op). method \<in> set httpMethods) (entriesOf item)))
       (entriesOf paths))"

definition sampleEm :: "unit collaborators" where
  "sampleEm = \<lparr>
     tsReadonly = (\<lambda>immutable. if immutable then ''readonly '' else []),
     comment = (\<lambda>text. ''/** doc */'' @ NL),
     transformHeaderObjMap = sampleSchemaObjMap,
     operationRequestType = (\<lambda>opId operation c. ''unknown''),
     queryStringType = (\<lambda>opId operation c. ''unknown''),
     transformOperationObj = (\<lambda>operation c. ''responses: {}''),
     getOperationId = sampleOperationId,
     getOperationIdFromPath = (\<lambda>path. path),
     transformPathsObj = (\<lambda>paths c operations.
       (concat (map (\<lambda>p. p @ '': {}; '') (keysOf paths)), operations @ sampleRegister paths)),
     transformRequestBodies = (\<lambda>x c. case required c of None \<Rightarrow> ''bodies''
                                 | Some r \<Rightarrow> ''bodies with required''),
     getResponseTypes = (\<lambda>opId responses. ''unknown''),
     transformResponsesObj = (\<lambda>x c. case required c of None \<Rightarrow> ''responses''
                                 | Some r \<Rightarrow> ''responses with required''),
     transformSchemaObjMap = sampleSchemaObjMap \<rparr>"

definition samplePk :: "unit packageCollaborators" where
  "samplePk = \<lparr>
     transformComponentsObject = (\<lambda>x c. ''components''),
     transformExpress = (\<lambda>x c. [(''operations'', ''operations''), (''express'', ''express''),
                               (''handlers'', ''handlers'')]),
     transformPathsObject = (\<lambda>x c. ''paths''),
     transformWebhooksObject = (\<lambda>x c. ''webhooks'') \<rparr>"

definition sampleCtx :: "int \<Rightarrow> bool \<Rightarrow> GlobalContext" where
  "sampleCtx v raw = \<lparr>version = v, immutableTypes = False, rawSchema = raw, required = None,
     globalParameters = JUndefined, pathItem = None\<rparr>"

definition flatDoc :: json where
  "flatDoc = JObj [(''A'', JObj []), (''B'', JObj [])]"

definition componentsDoc :: json where
  "componentsDoc =
     JObj [(''components'', JObj [(''responses'', JObj [(''NotFound'', JObj [])])])]"

definition postGetDoc :: json where
  "postGetDoc = JObj [(''paths'', JObj [(''/pets'',
     JObj [(''post'', JObj []), (''parameters'', JArr []), (''get'', JObj [])])])]"

definition emptyDoc :: json where
  "emptyDoc = JObj []"

definition numberedDoc :: json where
  "numberedDoc = JObj [(''paths'', JObj
     [(''/a'', JObj [(''get'', JObj [(''operationId'', JStr ''10'')])]),
      (''/b'', JObj [(''get'', JObj [(''operationId'', JStr ''9'')])])])]"

section \<open>Reading a value that is not null\<close>

lemma truthy_not_nullish: "truthy x \<Longrightarrow> \<not> nullish x"
  by (cases x) simp_all

lemma getProp_field: "\<not> nullish x \<Longrightarrow> getProp x k = Some (field x k)"
  by (cases x) (simp_all add: field_def)

lemma field_nullish: "nullish x \<Longrightarrow> field x k = JUndefined"
  by (cases x) (simp_all add: field_def)

lemma field_falsy: "\<not> truthy x \<Longrightarrow> field x k = JUndefined"
  by (cases x) (simp_all add: field_def)

lemma objectEntries_entriesOf: "\<not> nullish x \<Longrightarrow> objectEntries x = Some (entriesOf x)"
  by (cases x) (simp_all add: entriesOf_def)

lemma objectEntries_None: "nullish x \<Longrightarrow> objectEntries x = None"
  by (cases x) simp_all

lemma objectKeys_keysOf: "\<not> nullish x \<Longrightarrow> objectKeys x = Some (keysOf x)"
  by (simp add: objectKeys_def keysOf_def objectEntries_entriesOf)

lemma globalParametersOf_globalParams:
  "\<not> nullish schema \<Longrightarrow> globalParametersOf schema = Some (globalParams schema)"
  by (simp add: globalParametersOf_def globalParams_def getProp_field truthy_not_nullish Let_def)

section \<open>Assignments, loops and the cleanup\<close>

lemma assign_fresh: "k \<notin> fst ` set out \<Longrightarrow> assign k v out = out @ [(k, v)]"
  by (induction out) (auto simp: assign_def)

lemma appendTo_last:
  "k \<notin> fst ` set out \<Longrightarrow> appendTo k s (out @ [(k, v)]) = out @ [(k, v @ s)]"
  by (induction out) (auto simp: appendTo_def assign_def)

lemma appendTo_twice: "appendTo k b (appendTo k a out) = appendTo k (a @ b) out"
  by (simp add: appendTo_def assign_def update_conv')

lemma ownPropertyOrder_Nil: "ownPropertyOrder entries = [] \<longleftrightarrow> entries = []"
proof
  assume e: "ownPropertyOrder entries = []"
  then have "length (sort_key (\<lambda>entry. readNat (fst entry))
      (filter (\<lambda>entry. isArrayIndex (fst entry)) entries)) = 0"
    by (simp add: ownPropertyOrder_def)
  then have "filter (\<lambda>entry. isArrayIndex (fst entry)) entries = []"
    by (simp only: length_sort length_0_conv)
  moreover have "filter (\<lambda>entry. \<not> isArrayIndex (fst entry)) entries = []"
    using e by (simp add: ownPropertyOrder_def)
  ultimately have "filter (\<lambda>entry. isArrayIndex (fst entry)) entries = []"
    "filter (\<lambda>entry. \<not> isArrayIndex (fst entry)) entries = []"
    by simp_all
  then show "entries = []"
    by (simp add: filter_empty_conv)
next
  assume "entries = []"
  then show "ownPropertyOrder entries = []"
    by (simp add: ownPropertyOrder_def)
qed

lemma ownPropertyOrder_empty: "ownPropertyOrder [] = []"
  by (simp add: ownPropertyOrder_def)

lemma ownPropertyOrder_no_index:
  "list_all (\<lambda>entry. \<not> isArrayIndex (fst entry)) entries \<Longrightarrow> ownPropertyOrder entries = entries"
  by (simp add: ownPropertyOrder_def list_all_iff filter_empty_conv [THEN iffD2] filter_id_conv)

lemma forEach_appendTo:
  assumes "\<And>x v'. x \<in> set xs \<Longrightarrow> body x (out0 @ [(k, v')]) = Some (out0 @ [(k, v' @ f x)])"
  shows "forEach xs body (out0 @ [(k, v)]) = Some (out0 @ [(k, v @ concat (map f xs))])"
  using assms by (induction xs arbitrary: v) simp_all

lemma objectAssign_keys:
  "k \<in> fst ` set target \<Longrightarrow> k \<in> fst ` set (objectAssign target source)"
proof (induction source arbitrary: target)
  case Nil
  then show ?case by (simp add: objectAssign_def)
next
  case (Cons e source)
  obtain k' v' where e: "e = (k', v')"
    by (cases e)
  have "k \<in> fst ` set (assign k' v' target)"
    using Cons.prems by (simp add: assign_def dom_update [simplified dom_map_of_conv_image_fst])
  from Cons.IH [OF this] show ?case
    by (simp add: objectAssign_def e)
qed

lemma cleanup_aux:
  assumes "distinct (map fst (xs @ ys))"
  shows "fold (\<lambda>k out. case map_of out k of None \<Rightarrow> out | Some v \<Rightarrow> assign k (trim v) out)
      (map fst ys) (map (\<lambda>(k, v). (k, trim v)) xs @ ys) =
    map (\<lambda>(k, v). (k, trim v)) (xs @ ys)"
  using assms
proof (induction ys arbitrary: xs)
  case Nil
  then show ?case by simp
next
  case (Cons y ys)
  obtain k v where y: "y = (k, v)"
    by (cases y)
  let ?T = "map (\<lambda>(k, v). (k, trim v))"
  have keys: "map fst (?T xs) = map fst xs"
    by (simp add: case_prod_unfold comp_def)
  have "k \<notin> set (map fst xs)"
    using Cons.prems by (simp add: y)
  then have notin: "k \<notin> fst ` set (?T xs)"
    using keys by (metis set_map)
  then have look: "map_of (?T xs @ (k, v) # ys) k = Some v"
    by (simp add: map_add_def map_of_eq_None_iff [THEN iffD2] split: option.split)
  have upd: "assign k (trim v) (?T xs @ (k, v) # ys) = ?T (xs @ [(k, v)]) @ ys"
    using notin by (induction xs) (force simp: assign_def)+
  have "distinct (map fst ((xs @ [(k, v)]) @ ys))"
    using Cons.prems by (simp add: y)
  from Cons.IH [OF this] show ?case
    by (simp add: y look upd del: map_of_append)
qed

lemma cleanup_distinct:
  "distinct (map fst out) \<Longrightarrow> cleanup out = map (\<lambda>(k, v). (k, trim v)) out"
  using cleanup_aux [of "[]" out] by (simp add: cleanup_def)

lemma map_of_trimmed:
  "map_of (map (\<lambda>(k, v). (k, trim v)) out) k = map_option trim (map_of out k)"
  by (induction out) auto

lemma last_dropWhile: "dropWhile P xs \<noteq> [] \<Longrightarrow> last (dropWhile P xs) = last xs"
  by (induction xs) (auto split: if_splits)

lemma trim_Nil: "trim [] = []"
  by (simp add: trim_def)

lemma trimmed_trim: "trimmed (trim s)"
proof (cases "trim s = []")
  case True
  then show ?thesis by (simp add: trimmed_def)
next
  case False
  let ?t = "dropWhile isWhiteSpace s"
  let ?u = "dropWhile isWhiteSpace (rev ?t)"
  have u: "?u \<noteq> []"
    using False by (simp add: trim_def)
  have t: "?t \<noteq> []"
  proof
    assume "?t = []"
    then have "?u = []" by (simp only: rev.simps dropWhile.simps)
    with u show False by blast
  qed
  have "\<not> isWhiteSpace (hd ?u)"
    using u by (rule hd_dropWhile)
  then have l: "\<not> isWhiteSpace (last (trim s))"
    using u by (simp add: trim_def last_rev)
  have "last ?u = last (rev ?t)"
    using u by (rule last_dropWhile)
  then have "hd (trim s) = hd ?t"
    using u t by (simp add: trim_def hd_rev last_rev)
  moreover have "\<not> isWhiteSpace (hd ?t)"
    using t by (rule hd_dropWhile)
  ultimately show ?thesis
    using l by (simp add: trimmed_def)
qed

section \<open>The stages of transformAll\<close>

text \<open>
  Each stage adds its entries behind those of the output it is given. The handlers are the
  one stage that can throw, on a path item that is \<^verbatim>\<open>null\<close> or \<^verbatim>\<open>undefined\<close>.
\<close>

lemma pathsSection_closed:
  assumes "\<not> nullish schema"
  shows "pathsSection em schema ctx [] [] =
    Some ([(''paths'', fst (pathsResult em schema ctx))], registryOf em schema ctx)"
  using assms
  by (simp add: pathsSection_def pathsResult_def registryOf_def getProp_field
      globalParametersOf_globalParams assign_def appendTo_def split: prod.splits)

lemma version2Sections_closed:
  assumes "\<not> nullish schema" "version ctx = 2"
    and "''definitions'' \<notin> fst ` set out" "''parameters'' \<notin> fst ` set out"
    and "''responses'' \<notin> fst ` set out"
  shows "version2Sections em schema ctx out = Some (out @ versionEntries em schema ctx)"
  using assms
  by (simp add: version2Sections_def versionEntries_def getProp_field objectKeys_keysOf
      truthy_not_nullish assign_fresh image_Un)

lemma version3Sections_closed:
  assumes "\<not> nullish schema" "version ctx = 3" "''components'' \<notin> fst ` set out"
  shows "version3Sections em schema ctx (tsReadonly em (immutableTypes ctx)) out =
    Some (out @ versionEntries em schema ctx)"
proof (cases "truthy (field schema ''components'')")
  case True
  then have nn: "\<not> nullish (field schema ''components'')"
    by (rule truthy_not_nullish)
  show ?thesis
    using assms True
    by (simp add: version3Sections_def versionEntries_def componentBlocks_def Let_def
        getProp_field [OF assms(1)] getProp_field [OF nn] objectKeys_keysOf truthy_not_nullish
        assign_fresh appendTo_last containerBlock_def)
next
  case False
  have "field (field schema ''components'') k = JUndefined" for k
    using False by (cases "field schema ''components''") (simp_all add: field_def)
  then show ?thesis
    using assms False
    by (simp add: version3Sections_def versionEntries_def componentBlocks_def Let_def
        getProp_field [OF assms(1)] assign_fresh)
qed

lemma versionSections_closed:
  assumes "\<not> nullish schema"
    and "''definitions'' \<notin> fst ` set out" "''parameters'' \<notin> fst ` set out"
    and "''responses'' \<notin> fst ` set out" "''components'' \<notin> fst ` set out"
  shows "versionSections em schema ctx (tsReadonly em (immutableTypes ctx)) out =
    Some (out @ versionEntries em schema ctx)"
proof -
  consider "version ctx = 2" | "version ctx = 3" | "version ctx \<noteq> 2" "version ctx \<noteq> 3"
    by blast
  then show ?thesis
  proof cases
    case 1
    then show ?thesis
      using version2Sections_closed [OF assms(1) 1 assms(2-4)] by (simp add: versionSections_def)
  next
    case 2
    then show ?thesis
      using version3Sections_closed [OF assms(1) 2 assms(5)] by (simp add: versionSections_def)
  next
    case 3
    then show ?thesis by (simp add: versionSections_def versionEntries_def)
  qed
qed

lemma operationsStep_closed:
  assumes "\<not> nullish schema"
  shows "operationsStep em schema ctx (tsReadonly em (immutableTypes ctx)) entry out =
    Some (appendTo ''operations'' (operationText em schema ctx entry) out)"
  using assms
  by (cases entry)
    (simp add: operationsStep_def operationText_def globalParametersOf_globalParams
      appendTo_twice containerBlock_def)

lemma operationsSection_closed:
  assumes "\<not> nullish schema" "''operations'' \<notin> fst ` set out"
  shows "operationsSection em schema ctx (tsReadonly em (immutableTypes ctx)) operations out =
    Some (out @ [(''operations'', concat (map (operationText em schema ctx) (ownPropertyOrder operations)))])"
proof -
  have "forEach (ownPropertyOrder operations) (operationsStep em schema ctx (tsReadonly em (immutableTypes ctx)))
      (out @ [(''operations'', [])]) =
    Some (out @ [(''operations'', [] @ concat (map (operationText em schema ctx) (ownPropertyOrder operations)))])"
    by (rule forEach_appendTo) (simp add: operationsStep_closed [OF assms(1)] appendTo_last [OF assms(2)])
  then show ?thesis
    using assms(2) by (simp add: operationsSection_def assign_fresh Let_def)
qed

lemma expressStep_closed:
  assumes "\<not> nullish schema"
  shows "expressStep em schema ctx entry out =
    Some (appendTo ''express''
      (case entry of (opId, operation, item) \<Rightarrow> expressText em opId operation
         (ctx\<lparr>pathItem := Some item, globalParameters := globalParams schema\<rparr>)) out)"
  using assms
  by (cases entry) (simp add: expressStep_def globalParametersOf_globalParams)

lemma handlersMembers_closed:
  assumes "''handlers'' \<notin> fst ` set out"
  shows "forEach members (handlersMember em path) (out @ [(''handlers'', v)]) =
    Some (out @ [(''handlers'', v @ concat (map (\<lambda>(method, op). handlerText em path method op)
      (filter (\<lambda>(method, op). method \<in> set httpMethods) members)))])"
  using assms
  by (induction members arbitrary: v) (auto simp: handlersMember_def appendTo_last)

lemma handlersStep_closed:
  assumes "''handlers'' \<notin> fst ` set out" "\<not> nullish (snd entry)"
  shows "handlersStep em entry (out @ [(''handlers'', v)]) =
    Some (out @ [(''handlers'', v @ handlersEntry em entry)])"
  using assms
  by (cases entry)
    (simp add: handlersStep_def handlersEntry_def objectEntries_entriesOf appendTo_last
      handlersMembers_closed)

lemma handlersSteps_closed:
  assumes "''handlers'' \<notin> fst ` set out" "list_all (\<lambda>item. \<not> nullish item) (map snd entries)"
  shows "forEach entries (handlersStep em) (out @ [(''handlers'', v)]) =
    Some (out @ [(''handlers'', v @ concat (map (handlersEntry em) entries))])"
  using assms(2)
  by (induction entries arbitrary: v) (simp_all add: handlersStep_closed [OF assms(1)])

lemma handlersSteps_None:
  assumes "''handlers'' \<notin> fst ` set out" "\<not> list_all (\<lambda>item. \<not> nullish item) (map snd entries)"
  shows "forEach entries (handlersStep em) (out @ [(''handlers'', v)]) = None"
  using assms(2)
proof (induction entries arbitrary: v)
  case Nil
  then show ?case by simp
next
  case (Cons e es)
  show ?case
  proof (cases "nullish (snd e)")
    case True
    then show ?thesis
      by (cases e) (simp add: handlersStep_def objectEntries_None)
  next
    case False
    then show ?thesis
      using Cons by (simp add: handlersStep_closed [OF assms(1)])
  qed
qed

lemma expressSection_closed:
  assumes "\<not> nullish schema" "''express'' \<notin> fst ` set out" "''handlers'' \<notin> fst ` set out"
    and "operations \<noteq> [] \<Longrightarrow> truthy (field schema ''paths'')"
  shows "expressSection em schema ctx operations out =
    (if operations = [] \<or> list_all (\<lambda>item. \<not> nullish item) (pathItems schema)
     then Some (out @ [(''express'', concat (map (\<lambda>(opId, operation, item). expressText em opId operation
                    (ctx\<lparr>pathItem := Some item, globalParameters := globalParams schema\<rparr>)) (ownPropertyOrder operations)))]
       @ (if operations \<noteq> [] then [(''handlers'', handlersText em schema)] else []))
     else None)"
proof -
  have ex: "forEach (ownPropertyOrder operations) (expressStep em schema ctx) (out @ [(''express'', [])]) =
    Some (out @ [(''express'', [] @ concat (map (\<lambda>(opId, operation, item). expressText em opId operation
                    (ctx\<lparr>pathItem := Some item, globalParameters := globalParams schema\<rparr>)) (ownPropertyOrder operations)))])"
    by (rule forEach_appendTo)
      (simp add: expressStep_closed [OF assms(1)] appendTo_last [OF assms(2)] split: prod.splits)
  show ?thesis
  proof (cases "operations = []")
    case True
    then show ?thesis
      using assms(2) by (simp add: expressSection_def assign_fresh ownPropertyOrder_empty)
  next
    case False
    then have "truthy (field schema ''paths'')"
      by (rule assms(4))
    then have pn: "\<not> nullish (field schema ''paths'')"
      by (rule truthy_not_nullish)
    have fresh: "''handlers'' \<notin> fst ` set (out @ [(''express'', e)])" for e
      using assms(3) by simp
    show ?thesis
    proof (cases "list_all (\<lambda>item. \<not> nullish item) (pathItems schema)")
      case True
      then have items: "list_all (\<lambda>item. \<not> nullish item) (map snd (entriesOf (field schema ''paths'')))"
        by (simp add: pathItems_def)
      show ?thesis
        using False True assms(2) ex
        by (simp add: expressSection_def assign_fresh ownPropertyOrder_Nil getProp_field [OF assms(1)]
            objectEntries_entriesOf [OF pn] assign_fresh [OF fresh]
            handlersSteps_closed [OF fresh items, of _ _ "[]", simplified] handlersText_def)
    next
      case bad: False
      then have items: "\<not> list_all (\<lambda>item. \<not> nullish item) (map snd (entriesOf (field schema ''paths'')))"
        by (simp add: pathItems_def)
      show ?thesis
        using False bad assms(2) ex
        by (simp add: expressSection_def assign_fresh ownPropertyOrder_Nil getProp_field [OF assms(1)]
            objectEntries_entriesOf [OF pn] assign_fresh [OF fresh]
            handlersSteps_None [OF fresh items, of _ _ "[]", simplified])
    qed
  qed
qed

lemma versionEntries_keys:
  "map fst (versionEntries em schema ctx) =
     (if version ctx = 2 then
        (if truthy (field schema ''definitions'') then [''definitions''] else [])
        @ (if truthy (field schema ''parameters'') then [''parameters''] else [])
        @ (if truthy (field schema ''responses'') then [''responses''] else [])
      else if version ctx = 3 then [''components''] else [])"
  by (simp add: versionEntries_def)

lemma versionEntries_fresh:
  assumes "k \<notin> {''definitions'', ''parameters'', ''responses'', ''components''}"
  shows "k \<notin> fst ` set (versionEntries em schema ctx)"
proof -
  have "k \<notin> set (map fst (versionEntries em schema ctx))"
    using assms unfolding versionEntries_keys by simp
  then show ?thesis by simp
qed

lemma registry_paths: "registryOf em schema ctx \<noteq> [] \<Longrightarrow> truthy (field schema ''paths'')"
  by (simp add: registryOf_def pathsResult_def split: if_splits)

lemma sections_keys:
  "map fst (sections em schema ctx) =
     ''paths'' # map fst (versionEntries em schema ctx) @ [''operations'', ''express'']
     @ (if registryOf em schema ctx \<noteq> [] then [''handlers''] else [])"
  by (simp add: sections_def)

lemma sections_distinct: "distinct (map fst (sections em schema ctx))"
  unfolding sections_keys versionEntries_keys by simp

lemma pathsSection_None: "nullish schema \<Longrightarrow> pathsSection em schema ctx out ops = None"
  by (cases schema) (simp_all add: pathsSection_def)

lemma fullDocument_cases:
  "fullDocument em schema ctx =
     (if \<not> nullish schema \<and> (registryOf em schema ctx = []
           \<or> list_all (\<lambda>item. \<not> nullish item) (pathItems schema))
      then Some (map (\<lambda>(k, v). (k, trim v)) (sections em schema ctx))
      else None)"
proof (cases "nullish schema")
  case True
  then show ?thesis
    by (simp add: fullDocument_def pathsSection_None)
next
  case nn: False
  let ?ro = "tsReadonly em (immutableTypes ctx)"
  let ?o1 = "[(''paths'', fst (pathsResult em schema ctx))]"
  let ?o2 = "(''paths'', fst (pathsResult em schema ctx)) # versionEntries em schema ctx"
  let ?o3 = "(''paths'', fst (pathsResult em schema ctx)) # versionEntries em schema ctx
    @ [(''operations'', operationsText em schema ctx)]"
  have s1: "pathsSection em schema ctx [] [] = Some (?o1, registryOf em schema ctx)"
    by (rule pathsSection_closed [OF nn])
  have s2: "versionSections em schema ctx ?ro ?o1 = Some ?o2"
    using versionSections_closed [OF nn, of ?o1 em ctx] by simp
  have f3: "''operations'' \<notin> fst ` set ?o2"
    using versionEntries_fresh [of "''operations''" em schema ctx] by simp
  have s3: "operationsSection em schema ctx ?ro (registryOf em schema ctx) ?o2 = Some ?o3"
    using operationsSection_closed [OF nn f3] by (simp add: operationsText_def)
  have f4: "''express'' \<notin> fst ` set ?o3"
    using versionEntries_fresh [of "''express''" em schema ctx] by simp
  have f5: "''handlers'' \<notin> fst ` set ?o3"
    using versionEntries_fresh [of "''handlers''" em schema ctx] by simp
  have s4: "expressSection em schema ctx (registryOf em schema ctx) ?o3 =
      (if registryOf em schema ctx = [] \<or> list_all (\<lambda>item. \<not> nullish item) (pathItems schema)
       then Some (sections em schema ctx) else None)"
  proof -
    have "registryOf em schema ctx \<noteq> [] \<Longrightarrow> truthy (field schema ''paths'')"
      by (rule registry_paths)
    from expressSection_closed [where em = em and ctx = ctx, OF nn f4 f5 this] show ?thesis
      by (simp add: sections_def expressRecords_def ownPropertyOrder_empty)
  qed
  show ?thesis
    using nn by (simp add: fullDocument_def s1 s2 s3 s4 cleanup_distinct [OF sections_distinct])
qed

lemma transformAll_fullDocument:
  assumes "\<not> (rawSchema ctx \<and> (version ctx = 2 \<or> version ctx = 3))"
  shows "transformAll em schema ctx = fullDocument em schema ctx"
proof (cases "nullish schema")
  case True
  then show ?thesis
    by (simp add: transformAll_def fullDocument_cases objectKeys_def objectEntries_None)
next
  case False
  then show ?thesis
    using assms by (auto simp: transformAll_def objectKeys_keysOf)
qed

lemma transformAll_wellFormed:
  assumes "\<not> (rawSchema ctx \<and> (version ctx = 2 \<or> version ctx = 3))" "wellFormed schema"
  shows "transformAll em schema ctx = Some (map (\<lambda>(k, v). (k, trim v)) (sections em schema ctx))"
  using assms(2) by (simp add: transformAll_fullDocument [OF assms(1)] fullDocument_cases wellFormed_def)

lemma transformAll_Some:
  assumes "\<not> (rawSchema ctx \<and> (version ctx = 2 \<or> version ctx = 3))"
    and "transformAll em schema ctx = Some out"
  shows "out = map (\<lambda>(k, v). (k, trim v)) (sections em schema ctx)"
  using assms(2) by (simp add: transformAll_fullDocument [OF assms(1)] fullDocument_cases split: if_splits)

lemma sections_lookup:
  "map_of (sections em schema ctx) ''paths'' = Some (fst (pathsResult em schema ctx))"
  "map_of (sections em schema ctx) ''operations'' = Some (operationsText em schema ctx)"
  "map_of (sections em schema ctx) ''express'' = Some (expressRecords em schema ctx)"
  "map_of (sections em schema ctx) ''handlers'' =
     (if registryOf em schema ctx \<noteq> [] then Some (handlersText em schema) else None)"
  "version ctx = 3 \<Longrightarrow>
     map_of (sections em schema ctx) ''components'' = Some (componentBlocks em schema ctx)"
  by (simp_all add: sections_def versionEntries_def map_add_def)

lemma expressText_recordType:
  "expressText em opId operation typeArgs =
     recordType opId (expressMembers em opId operation typeArgs)"
  by (simp add: expressText_def recordType_def expressMembers_def selfReference_def)

lemma componentBlocks_absent:
  "\<not> truthy (field schema ''components'') \<Longrightarrow> componentBlocks em schema ctx = []"
  by (simp add: componentBlocks_def field_falsy)

lemma transformSchema_closed:
  assumes "truthy doc"
  shows "transformSchema pk doc c =
    Some (let base = [(''paths'', if truthy (field doc ''paths'')
                         then transformPathsObject pk (field doc ''paths'') c else []),
                      (''webhooks'', if truthy (field doc ''webhooks'')
                         then transformWebhooksObject pk (field doc ''webhooks'') c else []),
                      (''components'', if truthy (field doc ''components'')
                         then transformComponentsObject pk (field doc ''components'') c else [])]
          in if truthy (field doc ''paths'')
             then objectAssign base (transformExpress pk (field doc ''paths'') c) else base)"
  using assms
  by (simp add: transformSchema_def getProp_field truthy_not_nullish assign_def Let_def)

section \<open>The sample runs\<close>

lemmas sample_defs = sampleEm_def sampleCtx_def sampleSchemaObjMap_def sampleRegister_def
  sampleOperationId_def numberedDoc_def
  samplePk_def flatDoc_def componentsDoc_def postGetDoc_def emptyDoc_def

lemmas read_defs = field_def entriesOf_def keysOf_def ownProp_def globalParams_def
  pathItems_def wellFormed_def httpMethods_def

lemmas text_defs = pathsResult_def registryOf_def containerBlock_def componentBlocks_def
  componentBlocksSpec_def operationText_def operationsText_def expressRecords_def ownPropertyOrder_empty
  handlerText_def handlersEntry_def handlersText_def handlersEntryCanonical_def
  handlersTextCanonical_def trim_def isWhiteSpace_def

lemma sampleCtx_fields:
  "version (sampleCtx v raw) = v" "rawSchema (sampleCtx v raw) = raw"
  "immutableTypes (sampleCtx v raw) = False"
  by (simp_all add: sampleCtx_def)

lemma wellFormed_samples:
  "wellFormed flatDoc" "wellFormed componentsDoc" "wellFormed postGetDoc" "wellFormed emptyDoc"
  by (simp_all add: sample_defs read_defs)

lemma registry_postGetDoc:
  "registryOf sampleEm postGetDoc (sampleCtx v raw) =
     [(''post/pets'', [], [(''post'', JObj []), (''parameters'', JArr []), (''get'', JObj [])]),
      (''get/pets'', [], [(''post'', JObj []), (''parameters'', JArr []), (''get'', JObj [])])]"
  by (simp add: sample_defs read_defs text_defs)

lemma registry_postGetDoc_order:
  "ownPropertyOrder (registryOf sampleEm postGetDoc (sampleCtx v raw)) =
     registryOf sampleEm postGetDoc (sampleCtx v raw)"
  unfolding registry_postGetDoc
  by (rule ownPropertyOrder_no_index) (simp add: isArrayIndex_def isDigit_def)

lemma registry_no_paths:
  "registryOf sampleEm componentsDoc (sampleCtx v raw) = []"
  "registryOf sampleEm emptyDoc (sampleCtx v raw) = []"
  by (simp_all add: sample_defs read_defs text_defs)

lemma components_componentsDoc:
  "trim (componentBlocks sampleEm componentsDoc (sampleCtx 3 False)) =
     ''responses: {'' @ NL @ ''    responses'' @ NL @ ''  }''"
  "trim (componentBlocksSpec sampleEm componentsDoc (sampleCtx 3 False)) =
     ''responses: {'' @ NL @ ''    responses with required'' @ NL @ ''  }''"
  by (simp_all add: sample_defs read_defs text_defs)

lemma handlers_postGetDoc:
  "trim (handlersText sampleEm postGetDoc) =
     ''/pets: {'' @ NL
     @ '' post: express<SLocals, RLocals>['' @ DQ @ ''post/pets'' @ DQ @ '']['' @ DQ @ ''handler'' @ DQ @ '']'' @ NL
     @ '' get: express<SLocals, RLocals>['' @ DQ @ ''get/pets'' @ DQ @ '']['' @ DQ @ ''handler'' @ DQ @ '']'' @ NL
     @ '' }''"
  "trim (handlersTextCanonical sampleEm postGetDoc) =
     ''/pets: {'' @ NL
     @ '' get: express<SLocals, RLocals>['' @ DQ @ ''get/pets'' @ DQ @ '']['' @ DQ @ ''handler'' @ DQ @ '']'' @ NL
     @ '' post: express<SLocals, RLocals>['' @ DQ @ ''post/pets'' @ DQ @ '']['' @ DQ @ ''handler'' @ DQ @ '']'' @ NL
     @ '' }''"
  by (simp_all add: sample_defs read_defs text_defs)

lemma run_componentsDoc:
  "transformAll sampleEm componentsDoc (sampleCtx 3 False) =
     Some [(''paths'', []),
           (''components'', ''responses: {'' @ NL @ ''    responses'' @ NL @ ''  }''),
           (''operations'', []), (''express'', [])]"
proof -
  have "transformAll sampleEm componentsDoc (sampleCtx 3 False) =
      Some (map (\<lambda>(k, v). (k, trim v)) (sections sampleEm componentsDoc (sampleCtx 3 False)))"
    by (rule transformAll_wellFormed) (simp_all add: sampleCtx_fields wellFormed_samples)
  then show ?thesis
    using components_componentsDoc(1)
    by (simp add: sections_def versionEntries_def sampleCtx_fields registry_no_paths
        operationsText_def expressRecords_def ownPropertyOrder_empty trim_Nil)
      (simp add: sample_defs read_defs text_defs)
qed

lemma run_emptyDoc:
  "transformAll sampleEm emptyDoc (sampleCtx 3 False) =
     Some [(''paths'', []), (''components'', []), (''operations'', []), (''express'', [])]"
proof -
  have "transformAll sampleEm emptyDoc (sampleCtx 3 False) =
      Some (map (\<lambda>(k, v). (k, trim v)) (sections sampleEm emptyDoc (sampleCtx 3 False)))"
    by (rule transformAll_wellFormed) (simp_all add: sampleCtx_fields wellFormed_samples)
  then show ?thesis
    by (simp add: sections_def versionEntries_def sampleCtx_fields registry_no_paths
        operationsText_def expressRecords_def ownPropertyOrder_empty trim_Nil)
      (simp add: sample_defs read_defs text_defs)
qed

lemma run_flatDoc:
  "transformAll sampleEm flatDoc (sampleCtx 3 True) = Some [(''schemas'', ''A: {}; B: {}; '')]"
  by (simp add: transformAll_def objectKeys_def assign_def sample_defs read_defs)

lemma run_postGetDoc:
  "transformAll sampleEm postGetDoc (sampleCtx 3 False) =
     Some (map (\<lambda>(k, v). (k, trim v)) (sections sampleEm postGetDoc (sampleCtx 3 False)))"
  by (rule transformAll_wellFormed) (simp_all add: sampleCtx_fields wellFormed_samples)

lemma handlers_run_postGetDoc:
  "sectionOf (transformAll sampleEm postGetDoc (sampleCtx 3 False)) ''handlers'' =
     Some (trim (handlersText sampleEm postGetDoc))"
  by (simp add: run_postGetDoc sectionOf_def map_of_trimmed sections_lookup registry_postGetDoc)

lemma run_samplePk:
  "transformSchema samplePk emptyDoc () =
     Some [(''paths'', []), (''webhooks'', []), (''components'', [])]"
  by (simp add: transformSchema_def emptyDoc_def ownProp_def assign_def)

lemma express_postGetDoc:
  "expressRecords sampleEm postGetDoc (sampleCtx 3 False) =
     recordType ''post/pets''
       [(''responses'', ''void''),
        (''request'', ''expressRequest<Request<unknown>, SLocals, unknown>''),
        (''response'', ''Response<'' @ selfReference ''post/pets'' ''responses'' @ ''>''),
        (''handler'', ''(req: '' @ selfReference ''post/pets'' ''request'' @ '', res: ''
           @ selfReference ''post/pets'' ''response'' @ '') => void | Promise<void>'')]
     @ recordType ''get/pets''
       [(''responses'', ''void''),
        (''request'', ''expressRequest<Request<unknown>, SLocals, unknown>''),
        (''response'', ''Response<'' @ selfReference ''get/pets'' ''responses'' @ ''>''),
        (''handler'', ''(req: '' @ selfReference ''get/pets'' ''request'' @ '', res: ''
           @ selfReference ''get/pets'' ''response'' @ '') => void | Promise<void>'')]"
  unfolding expressRecords_def registry_postGetDoc_order
  unfolding registry_postGetDoc
  by (simp add: expressText_recordType expressMembers_def sampleEm_def ownProp_def)

lemma run_flatDoc_unknown:
  "transformAll sampleEm flatDoc (sampleCtx 5 True) =
     Some [(''paths'', []), (''operations'', []), (''express'', [])]"
proof -
  have "transformAll sampleEm flatDoc (sampleCtx 5 True) =
      Some (map (\<lambda>(k, v). (k, trim v)) (sections sampleEm flatDoc (sampleCtx 5 True)))"
    by (rule transformAll_wellFormed) (simp_all add: sampleCtx_fields wellFormed_samples)
  then show ?thesis
    by (simp add: sections_def versionEntries_def sampleCtx_fields) 
      (simp add: sample_defs read_defs text_defs)
qed

lemma wellFormed_numberedDoc: "wellFormed numberedDoc"
  by (simp add: sample_defs read_defs)

lemma registry_numberedDoc:
  "registryOf sampleEm numberedDoc (sampleCtx v raw) =
     [(''10'', [(''operationId'', JStr ''10'')],
         [(''get'', JObj [(''operationId'', JStr ''10'')])]),
      (''9'', [(''operationId'', JStr ''9'')],
         [(''get'', JObj [(''operationId'', JStr ''9'')])])]"
  by (simp add: sample_defs read_defs text_defs)

lemma registry_numberedDoc_order:
  "ownPropertyOrder (registryOf sampleEm numberedDoc (sampleCtx v raw)) =
     [(''9'', [(''operationId'', JStr ''9'')],
         [(''get'', JObj [(''operationId'', JStr ''9'')])]),
      (''10'', [(''operationId'', JStr ''10'')],
         [(''get'', JObj [(''operationId'', JStr ''10'')])])]"
  unfolding registry_numberedDoc
  by (simp add: ownPropertyOrder_def isArrayIndex_def isDigit_def readNat_def)

lemma express_numberedDoc:
  "expressRecords sampleEm numberedDoc (sampleCtx 3 False) =
     recordType ''9''
       [(''responses'', ''void''),
            (''request'', ''expressRequest<Request<unknown>, SLocals, unknown>''),
            (''response'', ''Response<'' @ selfReference ''9'' ''responses'' @ ''>''),
            (''handler'', ''(req: '' @ selfReference ''9'' ''request'' @ '', res: ''
               @ selfReference ''9'' ''response'' @ '') => void | Promise<void>'')]
     @ recordType ''10''
       [(''responses'', ''void''),
            (''request'', ''expressRequest<Request<unknown>, SLocals, unknown>''),
            (''response'', ''Response<'' @ selfReference ''10'' ''responses'' @ ''>''),
            (''handler'', ''(req: '' @ selfReference ''10'' ''request'' @ '', res: ''
               @ selfReference ''10'' ''response'' @ '') => void | Promise<void>'')]"
  "expressRecordsDiscovered sampleEm numberedDoc (sampleCtx 3 False) =
     recordType ''10''
       [(''responses'', ''void''),
            (''request'', ''expressRequest<Request<unknown>, SLocals, unknown>''),
            (''response'', ''Response<'' @ selfReference ''10'' ''responses'' @ ''>''),
            (''handler'', ''(req: '' @ selfReference ''10'' ''request'' @ '', res: ''
               @ selfReference ''10'' ''response'' @ '') => void | Promise<void>'')]
     @ recordType ''9''
       [(''responses'', ''void''),
            (''request'', ''expressRequest<Request<unknown>, SLocals, unknown>''),
            (''response'', ''Response<'' @ selfReference ''9'' ''responses'' @ ''>''),
            (''handler'', ''(req: '' @ selfReference ''9'' ''request'' @ '', res: ''
               @ selfReference ''9'' ''response'' @ '') => void | Promise<void>'')]"
  unfolding expressRecords_def expressRecordsDiscovered_def registry_numberedDoc_order
  unfolding registry_numberedDoc
  by (simp_all add: expressText_recordType expressMembers_def sampleEm_def ownProp_def)

section \<open>The claims\<close>

text \<open>
  Claim C1. In raw-schema mode with version 2 or 3, \<^verbatim>\<open>transformAll\<close> returns an output
  with exactly one key, \<^verbatim>\<open>definitions\<close> for version 2 and \<^verbatim>\<open>schemas\<close> for version 3. Its value is
  what the schema-map emitter renders for the whole input, with \<^verbatim>\<open>required\<close> the set of all
  top-level keys of the input; no other key is present. The input is any value but
  \<^verbatim>\<open>null\<close> and \<^verbatim>\<open>undefined\<close>, whose keys cannot be read.
\<close>

theorem rawSchema_single_section:
  assumes "rawSchema ctx" "version ctx = 2 \<or> version ctx = 3" "\<not> nullish schema"
  shows "transformAll em schema ctx =
    Some [(if version ctx = 2 then ''definitions'' else ''schemas'',
           transformSchemaObjMap em schema (ctx\<lparr>required := Some (set (keysOf schema))\<rparr>))]"
  using assms by (auto simp: transformAll_def objectKeys_keysOf assign_def)

theorem rawSchema_single_section_witness:
  "rawSchema (sampleCtx 3 True)
   \<and> (version (sampleCtx 3 True) = 2 \<or> version (sampleCtx 3 True) = 3)
   \<and> \<not> nullish flatDoc
   \<and> transformAll sampleEm flatDoc (sampleCtx 3 True) = Some [(''schemas'', ''A: {}; B: {}; '')]"
  using rawSchema_single_section [of "sampleCtx 3 True" flatDoc sampleEm]
  by (simp add: sampleCtx_def flatDoc_def sampleEm_def sampleSchemaObjMap_def keysOf_def
      entriesOf_def)

text \<open>
  Claim C2, as amended. For a version-3 document outside raw-schema mode,
  \<^verbatim>\<open>output.components\<close> is the trimmed concatenation, in the order schemas, responses,
  parameters, requestBodies, headers, of one named container block for each sub-collection
  that is present (truthy) under \<^verbatim>\<open>components\<close>; an absent one adds nothing. Schemas and
  parameters are rendered with \<^verbatim>\<open>required\<close> the set of their own keys and headers with the
  empty set, while responses and requestBodies are rendered with the context as it is,
  without any \<^verbatim>\<open>required\<close> of their own.
\<close>

theorem components_blocks:
  assumes "version ctx = 3" "\<not> rawSchema ctx" "wellFormed schema"
  shows "sectionOf (transformAll em schema ctx) ''components'' =
    Some (trim (componentBlocks em schema ctx))"
  using assms
  by (simp add: transformAll_wellFormed sectionOf_def map_of_trimmed sections_lookup)

theorem components_blocks_witness:
  "version (sampleCtx 3 False) = 3 \<and> \<not> rawSchema (sampleCtx 3 False) \<and> wellFormed componentsDoc
   \<and> sectionOf (transformAll sampleEm componentsDoc (sampleCtx 3 False)) ''components'' =
       Some (''responses: {'' @ NL @ ''    responses'' @ NL @ ''  }'')"
  using components_blocks [of "sampleCtx 3 False" componentsDoc sampleEm]
  by (simp add: sampleCtx_fields wellFormed_samples components_componentsDoc(1))

text \<open>
  The claim as stated has responses rendered with \<^verbatim>\<open>required\<close> the set of its own keys. On
  a document with one response the code hands the responses emitter a context without
  \<^verbatim>\<open>required\<close>, and the section differs from the one the claim describes.
\<close>

theorem components_required_counterexample:
  "sectionOf (transformAll sampleEm componentsDoc (sampleCtx 3 False)) ''components'' =
     Some (''responses: {'' @ NL @ ''    responses'' @ NL @ ''  }'')
   \<and> sectionOf (transformAll sampleEm componentsDoc (sampleCtx 3 False)) ''components'' \<noteq>
     Some (trim (componentBlocksSpec sampleEm componentsDoc (sampleCtx 3 False)))"
  by (simp add: run_componentsDoc components_componentsDoc(2) sectionOf_def)

text \<open>
  Claim C3, as amended. When the operation registry is not empty, the handlers section
  is the trimmed concatenation of one entry for each path of the paths node, in the order
  of the document; the entry of a path has one member for each key of the path item that
  is one of get, put, post, delete, options, head, patch, trace, in the order in which the
  keys appear on the path item. Other keys give no member, and a method that the path item
  does not have gives none either.
\<close>

theorem handlers_enumeration:
  assumes "\<not> (rawSchema ctx \<and> (version ctx = 2 \<or> version ctx = 3))" "wellFormed schema"
    and "registryOf em schema ctx \<noteq> []"
  shows "sectionOf (transformAll em schema ctx) ''handlers'' = Some (trim (handlersText em schema))"
  using assms(3)
  by (simp add: transformAll_wellFormed [OF assms(1,2)] sectionOf_def map_of_trimmed
      sections_lookup)

theorem handlers_enumeration_witness:
  "\<not> (rawSchema (sampleCtx 3 False)
        \<and> (version (sampleCtx 3 False) = 2 \<or> version (sampleCtx 3 False) = 3))
   \<and> wellFormed postGetDoc
   \<and> registryOf sampleEm postGetDoc (sampleCtx 3 False) \<noteq> []
   \<and> sectionOf (transformAll sampleEm postGetDoc (sampleCtx 3 False)) ''handlers'' =
       Some (''/pets: {'' @ NL
         @ '' post: express<SLocals, RLocals>['' @ DQ @ ''post/pets'' @ DQ @ '']['' @ DQ
         @ ''handler'' @ DQ @ '']'' @ NL
         @ '' get: express<SLocals, RLocals>['' @ DQ @ ''get/pets'' @ DQ @ '']['' @ DQ
         @ ''handler'' @ DQ @ '']'' @ NL
         @ '' }'')"
  using handlers_enumeration [of "sampleCtx 3 False" postGetDoc sampleEm]
  by (simp add: sampleCtx_fields wellFormed_samples registry_postGetDoc handlers_postGetDoc(1))

text \<open>
  The claim as stated enumerates the methods in the canonical order. A path item that
  lists post before get has its members in that order, post first.
\<close>

theorem handlers_order_counterexample:
  "sectionOf (transformAll sampleEm postGetDoc (sampleCtx 3 False)) ''handlers'' =
     Some (''/pets: {'' @ NL
       @ '' post: express<SLocals, RLocals>['' @ DQ @ ''post/pets'' @ DQ @ '']['' @ DQ
       @ ''handler'' @ DQ @ '']'' @ NL
       @ '' get: express<SLocals, RLocals>['' @ DQ @ ''get/pets'' @ DQ @ '']['' @ DQ
       @ ''handler'' @ DQ @ '']'' @ NL
       @ '' }'')
   \<and> sectionOf (transformAll sampleEm postGetDoc (sampleCtx 3 False)) ''handlers'' \<noteq>
     Some (trim (handlersTextCanonical sampleEm postGetDoc))"
  by (simp add: handlers_run_postGetDoc handlers_postGetDoc)

text \<open>
  Claim C4, as amended. Outside raw-schema mode, for a document on which no TypeError is
  thrown, the keys of the output of \<^verbatim>\<open>transformAll\<close> are: paths; for version 2 those of
  definitions, parameters and responses whose node is present, for version 3 components;
  operations and express; and handlers when the registry is not empty. There is no key
  webhooks. The value of paths is the empty string when the document has no paths, that of
  components when a version-3 document has no components, those of operations and express
  when the registry is empty. \<^verbatim>\<open>transformSchema\<close> gives every truthy document the keys paths,
  webhooks and components; for a document without paths these are the only keys, each the
  empty string when its node is absent.
\<close>

theorem sections_present:
  "(\<not> rawSchema ctx \<and> wellFormed schema \<longrightarrow>
      (\<exists>out. transformAll em schema ctx = Some out
         \<and> map fst out =
             ''paths''
             # (if version ctx = 2 then
                  (if truthy (field schema ''definitions'') then [''definitions''] else [])
                  @ (if truthy (field schema ''parameters'') then [''parameters''] else [])
                  @ (if truthy (field schema ''responses'') then [''responses''] else [])
                else if version ctx = 3 then [''components''] else [])
             @ [''operations'', ''express'']
             @ (if registryOf em schema ctx \<noteq> [] then [''handlers''] else [])
         \<and> (\<not> truthy (field schema ''paths'') \<longrightarrow> map_of out ''paths'' = Some [])
         \<and> (version ctx = 3 \<and> \<not> truthy (field schema ''components'') \<longrightarrow>
               map_of out ''components'' = Some [])
         \<and> (registryOf em schema ctx = [] \<longrightarrow>
               map_of out ''operations'' = Some [] \<and> map_of out ''express'' = Some [])))
   \<and> (truthy doc \<longrightarrow>
      (\<exists>out. transformSchema pk doc c = Some out
         \<and> ''paths'' \<in> set (map fst out) \<and> ''webhooks'' \<in> set (map fst out)
         \<and> ''components'' \<in> set (map fst out)
         \<and> (\<not> truthy (field doc ''paths'') \<longrightarrow>
               out = [(''paths'', []),
                      (''webhooks'', if truthy (field doc ''webhooks'')
                         then transformWebhooksObject pk (field doc ''webhooks'') c else []),
                      (''components'', if truthy (field doc ''components'')
                         then transformComponentsObject pk (field doc ''components'') c else [])])))"
proof (intro conjI impI)
  assume a: "\<not> rawSchema ctx \<and> wellFormed schema"
  let ?out = "map (\<lambda>(k, v). (k, trim v)) (sections em schema ctx)"
  have r: "transformAll em schema ctx = Some ?out"
    using a by (simp add: transformAll_wellFormed)
  have keys: "map fst ?out = map fst (sections em schema ctx)"
    by (simp add: case_prod_unfold comp_def)
  have k: "map fst ?out =
             ''paths''
             # (if version ctx = 2 then
                  (if truthy (field schema ''definitions'') then [''definitions''] else [])
                  @ (if truthy (field schema ''parameters'') then [''parameters''] else [])
                  @ (if truthy (field schema ''responses'') then [''responses''] else [])
                else if version ctx = 3 then [''components''] else [])
             @ [''operations'', ''express'']
             @ (if registryOf em schema ctx \<noteq> [] then [''handlers''] else [])"
    unfolding keys sections_keys versionEntries_keys by simp
  have p: "\<not> truthy (field schema ''paths'') \<longrightarrow> map_of ?out ''paths'' = Some []"
    unfolding map_of_trimmed sections_lookup by (simp add: pathsResult_def trim_Nil)
  have c: "version ctx = 3 \<and> \<not> truthy (field schema ''components'') \<longrightarrow>
      map_of ?out ''components'' = Some []"
    unfolding map_of_trimmed by (simp add: sections_lookup componentBlocks_absent trim_Nil)
  have o: "registryOf em schema ctx = [] \<longrightarrow>
      map_of ?out ''operations'' = Some [] \<and> map_of ?out ''express'' = Some []"
    unfolding map_of_trimmed sections_lookup
    by (simp add: operationsText_def expressRecords_def ownPropertyOrder_empty trim_Nil)
  show "\<exists>out. transformAll em schema ctx = Some out
         \<and> map fst out =
             ''paths''
             # (if version ctx = 2 then
                  (if truthy (field schema ''definitions'') then [''definitions''] else [])
                  @ (if truthy (field schema ''parameters'') then [''parameters''] else [])
                  @ (if truthy (field schema ''responses'') then [''responses''] else [])
                else if version ctx = 3 then [''components''] else [])
             @ [''operations'', ''express'']
             @ (if registryOf em schema ctx \<noteq> [] then [''handlers''] else [])
         \<and> (\<not> truthy (field schema ''paths'') \<longrightarrow> map_of out ''paths'' = Some [])
         \<and> (version ctx = 3 \<and> \<not> truthy (field schema ''components'') \<longrightarrow>
               map_of out ''components'' = Some [])
         \<and> (registryOf em schema ctx = [] \<longrightarrow>
               map_of out ''operations'' = Some [] \<and> map_of out ''express'' = Some [])"
    by (rule exI [of _ ?out]) (intro conjI r k p c o)
next
  assume t: "truthy doc"
  let ?base = "[(''paths'', if truthy (field doc ''paths'')
                         then transformPathsObject pk (field doc ''paths'') c else []),
                      (''webhooks'', if truthy (field doc ''webhooks'')
                         then transformWebhooksObject pk (field doc ''webhooks'') c else []),
                      (''components'', if truthy (field doc ''components'')
                         then transformComponentsObject pk (field doc ''components'') c else [])]"
  let ?out = "if truthy (field doc ''paths'')
             then objectAssign ?base (transformExpress pk (field doc ''paths'') c) else ?base"
  have r: "transformSchema pk doc c = Some ?out"
    using transformSchema_closed [OF t, of pk c] by (simp add: Let_def)
  have sub: "k \<in> fst ` set ?out" if "k \<in> fst ` set ?base" for k
  proof (cases "truthy (field doc ''paths'')")
    case True
    have "k \<in> fst ` set (objectAssign ?base (transformExpress pk (field doc ''paths'') c))"
      using that by (rule objectAssign_keys)
    with True show ?thesis by (simp only: if_True)
  next
    case False
    with that show ?thesis by (simp only: if_False)
  qed
  have b: "''paths'' \<in> fst ` set ?base" "''webhooks'' \<in> fst ` set ?base"
    "''components'' \<in> fst ` set ?base"
    by simp_all
  have ks: "''paths'' \<in> set (map fst ?out)" "''webhooks'' \<in> set (map fst ?out)"
    "''components'' \<in> set (map fst ?out)"
    unfolding set_map by (rule sub, rule b)+
  have e: "\<not> truthy (field doc ''paths'') \<longrightarrow>
               ?out = [(''paths'', []),
                      (''webhooks'', if truthy (field doc ''webhooks'')
                         then transformWebhooksObject pk (field doc ''webhooks'') c else []),
                      (''components'', if truthy (field doc ''components'')
                         then transformComponentsObject pk (field doc ''components'') c else [])]"
    by simp
  show "\<exists>out. transformSchema pk doc c = Some out
         \<and> ''paths'' \<in> set (map fst out) \<and> ''webhooks'' \<in> set (map fst out)
         \<and> ''components'' \<in> set (map fst out)
         \<and> (\<not> truthy (field doc ''paths'') \<longrightarrow>
               out = [(''paths'', []),
                      (''webhooks'', if truthy (field doc ''webhooks'')
                         then transformWebhooksObject pk (field doc ''webhooks'') c else []),
                      (''components'', if truthy (field doc ''components'')
                         then transformComponentsObject pk (field doc ''components'') c else [])])"
    by (rule exI [of _ ?out]) (intro conjI r ks e)
qed

theorem sections_present_witness:
  "\<not> rawSchema (sampleCtx 3 False) \<and> wellFormed emptyDoc
   \<and> transformAll sampleEm emptyDoc (sampleCtx 3 False) =
       Some [(''paths'', []), (''components'', []), (''operations'', []), (''express'', [])]
   \<and> truthy emptyDoc
   \<and> transformSchema samplePk emptyDoc () =
       Some [(''paths'', []), (''webhooks'', []), (''components'', [])]"
  using sections_present [of "sampleCtx 3 False" emptyDoc sampleEm emptyDoc samplePk "()"]
  by (simp add: sampleCtx_fields wellFormed_samples run_emptyDoc run_samplePk)
    (simp add: emptyDoc_def)

text \<open>
  The claim as stated has every section name as a key. For the empty document
  \<^verbatim>\<open>transformAll\<close> has no key handlers or webhooks, and \<^verbatim>\<open>transformSchema\<close> no key operations,
  express or handlers.
\<close>

theorem sections_present_counterexample:
  "transformAll sampleEm emptyDoc (sampleCtx 3 False) =
     Some [(''paths'', []), (''components'', []), (''operations'', []), (''express'', [])]
   \<and> transformSchema samplePk emptyDoc () =
     Some [(''paths'', []), (''webhooks'', []), (''components'', [])]"
  by (simp add: run_emptyDoc run_samplePk)

text \<open>
  Claim C5, as amended. Whenever the full document is processed, the express section is
  the trimmed concatenation of one record for each registry entry, taken in the order in
  which \<^verbatim>\<open>Object.keys\<close> enumerates the registry: the ids that are array indices first, in
  ascending numeric order, then the other ids in the order in which the operations were
  first discovered (so in the order of discovery when no id is an array index). The record
  is indexed by the operation id and has exactly four members: responses, the response
  types of the responses of the operation or \<^verbatim>\<open>void\<close> when it has none; request, the request
  type with the computed request type and query-string type; response, the response type
  with a reference to the responses member of the same record; and handler, a function
  from the request and response members of the same record to \<^verbatim>\<open>void | Promise<void>\<close>.
\<close>

theorem express_records:
  assumes "\<not> (rawSchema ctx \<and> (version ctx = 2 \<or> version ctx = 3))" "wellFormed schema"
  shows "sectionOf (transformAll em schema ctx) ''express'' =
      Some (trim (concat (map (\<lambda>(opId, operation, item).
          recordType opId (expressMembers em opId operation
            (ctx\<lparr>pathItem := Some item, globalParameters := globalParams schema\<rparr>)))
        (ownPropertyOrder (registryOf em schema ctx)))))
    \<and> (list_all (\<lambda>entry. \<not> isArrayIndex (fst entry)) (registryOf em schema ctx) \<longrightarrow>
          ownPropertyOrder (registryOf em schema ctx) = registryOf em schema ctx)"
  by (simp add: transformAll_wellFormed [OF assms] sectionOf_def map_of_trimmed
      sections_lookup expressRecords_def expressText_recordType ownPropertyOrder_no_index)

theorem express_records_witness:
  "\<not> (rawSchema (sampleCtx 3 False)
        \<and> (version (sampleCtx 3 False) = 2 \<or> version (sampleCtx 3 False) = 3))
   \<and> wellFormed postGetDoc
   \<and> list_all (\<lambda>entry. \<not> isArrayIndex (fst entry))
         (registryOf sampleEm postGetDoc (sampleCtx 3 False))
   \<and> map fst (registryOf sampleEm postGetDoc (sampleCtx 3 False)) = [''post/pets'', ''get/pets'']
   \<and> sectionOf (transformAll sampleEm postGetDoc (sampleCtx 3 False)) ''express'' =
       Some (trim (
         recordType ''post/pets''
           [(''responses'', ''void''),
            (''request'', ''expressRequest<Request<unknown>, SLocals, unknown>''),
            (''response'', ''Response<'' @ selfReference ''post/pets'' ''responses'' @ ''>''),
            (''handler'', ''(req: '' @ selfReference ''post/pets'' ''request'' @ '', res: ''
               @ selfReference ''post/pets'' ''response'' @ '') => void | Promise<void>'')]
         @ recordType ''get/pets''
           [(''responses'', ''void''),
            (''request'', ''expressRequest<Request<unknown>, SLocals, unknown>''),
            (''response'', ''Response<'' @ selfReference ''get/pets'' ''responses'' @ ''>''),
            (''handler'', ''(req: '' @ selfReference ''get/pets'' ''request'' @ '', res: ''
               @ selfReference ''get/pets'' ''response'' @ '') => void | Promise<void>'')]))"
proof -
  have n: "list_all (\<lambda>entry. \<not> isArrayIndex (fst entry))
      (registryOf sampleEm postGetDoc (sampleCtx 3 False))"
    unfolding registry_postGetDoc by (simp add: isArrayIndex_def isDigit_def)
  have "sectionOf (transformAll sampleEm postGetDoc (sampleCtx 3 False)) ''express'' =
      Some (trim (expressRecords sampleEm postGetDoc (sampleCtx 3 False)))"
    using express_records [of "sampleCtx 3 False" postGetDoc sampleEm]
    by (simp add: sampleCtx_fields wellFormed_samples expressRecords_def expressText_recordType)
  then show ?thesis
    using n
    by (simp only: express_postGetDoc sampleCtx_fields wellFormed_samples simp_thms)
      (simp add: registry_postGetDoc)
qed

text \<open>
  The claim as stated takes the registry entries in the order in which the operations
  were first discovered. On a document whose first path has an operation with the id 10
  and whose second path has one with the id 9, the paths emitter registers 10 before 9,
  and the express section has the record of 9 before the record of 10.
\<close>

theorem express_order_counterexample:
  "map fst (registryOf sampleEm numberedDoc (sampleCtx 3 False)) = [''10'', ''9'']
   \<and> sectionOf (transformAll sampleEm numberedDoc (sampleCtx 3 False)) ''express'' =
       Some (trim (
         recordType ''9''
           [(''responses'', ''void''),
            (''request'', ''expressRequest<Request<unknown>, SLocals, unknown>''),
            (''response'', ''Response<'' @ selfReference ''9'' ''responses'' @ ''>''),
            (''handler'', ''(req: '' @ selfReference ''9'' ''request'' @ '', res: ''
               @ selfReference ''9'' ''response'' @ '') => void | Promise<void>'')]
         @ recordType ''10''
           [(''responses'', ''void''),
            (''request'', ''expressRequest<Request<unknown>, SLocals, unknown>''),
            (''response'', ''Response<'' @ selfReference ''10'' ''responses'' @ ''>''),
            (''handler'', ''(req: '' @ selfReference ''10'' ''request'' @ '', res: ''
               @ selfReference ''10'' ''response'' @ '') => void | Promise<void>'')]))
   \<and> sectionOf (transformAll sampleEm numberedDoc (sampleCtx 3 False)) ''express'' \<noteq>
       Some (trim (expressRecordsDiscovered sampleEm numberedDoc (sampleCtx 3 False)))"
proof -
  have "sectionOf (transformAll sampleEm numberedDoc (sampleCtx 3 False)) ''express'' =
      Some (trim (expressRecords sampleEm numberedDoc (sampleCtx 3 False)))"
    by (simp add: transformAll_wellFormed sampleCtx_fields wellFormed_numberedDoc sectionOf_def
        map_of_trimmed sections_lookup)
  moreover have "trim (expressRecords sampleEm numberedDoc (sampleCtx 3 False)) \<noteq>
      trim (expressRecordsDiscovered sampleEm numberedDoc (sampleCtx 3 False))"
    unfolding express_numberedDoc
    by (simp add: recordType_def selfReference_def trim_def isWhiteSpace_def)
  ultimately show ?thesis
    by (simp add: express_numberedDoc(1) registry_numberedDoc)
qed

text \<open>
  Claim C6. For a version that is neither 2 nor 3, outside raw-schema mode,
  \<^verbatim>\<open>transformAll\<close> returns, and the output has none of the keys definitions, parameters,
  responses and components: it is paths, operations, express and, when the registry is not
  empty, handlers, each as for any other version.
\<close>

theorem unknown_version_sections:
  assumes "version ctx \<noteq> 2" "version ctx \<noteq> 3" "\<not> rawSchema ctx" "wellFormed schema"
  shows "transformAll em schema ctx =
    Some (map (\<lambda>(k, v). (k, trim v))
      ([(''paths'', fst (pathsResult em schema ctx)),
        (''operations'', operationsText em schema ctx),
        (''express'', expressRecords em schema ctx)]
       @ (if registryOf em schema ctx \<noteq> [] then [(''handlers'', handlersText em schema)] else [])))"
  using assms
  by (simp add: transformAll_wellFormed sections_def versionEntries_def)

theorem unknown_version_sections_witness:
  "version (sampleCtx 5 False) \<noteq> 2 \<and> version (sampleCtx 5 False) \<noteq> 3
   \<and> \<not> rawSchema (sampleCtx 5 False) \<and> wellFormed componentsDoc
   \<and> transformAll sampleEm componentsDoc (sampleCtx 5 False) =
       Some [(''paths'', []), (''operations'', []), (''express'', [])]"
  using unknown_version_sections [of "sampleCtx 5 False" componentsDoc sampleEm]
  by (simp add: sampleCtx_fields wellFormed_samples registry_no_paths operationsText_def
      expressRecords_def ownPropertyOrder_empty trim_Nil)
    (simp add: sample_defs read_defs text_defs)

text \<open>
  Claim C7, as amended. Whenever \<^verbatim>\<open>transformAll\<close> does not leave through the raw-schema
  return (raw-schema mode is off, or the version is neither 2 nor 3), every value of the
  output it returns has no whitespace at its start and none at its end.
\<close>

theorem sections_trimmed:
  assumes "\<not> (rawSchema ctx \<and> (version ctx = 2 \<or> version ctx = 3))"
    and "transformAll em schema ctx = Some out" "(k, v) \<in> set out"
  shows "trimmed v"
proof -
  have "out = map (\<lambda>(k, v). (k, trim v)) (sections em schema ctx)"
    using assms(1,2) by (rule transformAll_Some)
  with assms(3) obtain w where "v = trim w"
    by auto
  then show ?thesis
    by (simp add: trimmed_trim)
qed

theorem sections_trimmed_witness:
  "\<not> (rawSchema (sampleCtx 3 False)
        \<and> (version (sampleCtx 3 False) = 2 \<or> version (sampleCtx 3 False) = 3))
   \<and> transformAll sampleEm componentsDoc (sampleCtx 3 False) =
       Some [(''paths'', []),
             (''components'', ''responses: {'' @ NL @ ''    responses'' @ NL @ ''  }''),
             (''operations'', []), (''express'', [])]
   \<and> (''components'', ''responses: {'' @ NL @ ''    responses'' @ NL @ ''  }'')
       \<in> set [(''paths'', []),
             (''components'', ''responses: {'' @ NL @ ''    responses'' @ NL @ ''  }''),
             (''operations'', []), (''express'', [])]
   \<and> trimmed (''responses: {'' @ NL @ ''    responses'' @ NL @ ''  }'')"
  using sections_trimmed [of "sampleCtx 3 False" sampleEm componentsDoc _ "''components''"
      "''responses: {'' @ NL @ ''    responses'' @ NL @ ''  }''", OF _ run_componentsDoc]
  by (simp add: sampleCtx_fields run_componentsDoc)

text \<open>
  The claim as stated covers every context. In raw-schema mode with version 3 the output
  is returned before the cleanup, with the padding of the emitter.
\<close>

theorem raw_mode_untrimmed_counterexample:
  "transformAll sampleEm flatDoc (sampleCtx 3 True) = Some [(''schemas'', ''A: {}; B: {}; '')]
   \<and> \<not> trimmed ''A: {}; B: {}; ''"
  by (simp add: run_flatDoc trimmed_def isWhiteSpace_def)

text \<open>
  Claim C9. In raw-schema mode with a version that is neither 2 nor 3 the switch returns
  nothing: \<^verbatim>\<open>transformAll\<close> goes on as for a full document, and the output has the keys paths,
  operations and express (and handlers when the registry is not empty) computed from the
  input read as a document.
\<close>

theorem raw_unknown_version_falls_through:
  assumes "rawSchema ctx" "version ctx \<noteq> 2" "version ctx \<noteq> 3"
  shows "transformAll em schema ctx = fullDocument em schema ctx
    \<and> (wellFormed schema \<longrightarrow> transformAll em schema ctx =
        Some (map (\<lambda>(k, v). (k, trim v))
          ([(''paths'', fst (pathsResult em schema ctx)),
            (''operations'', operationsText em schema ctx),
            (''express'', expressRecords em schema ctx)]
           @ (if registryOf em schema ctx \<noteq> [] then [(''handlers'', handlersText em schema)]
              else []))))"
proof -
  have fall: "\<not> (rawSchema ctx \<and> (version ctx = 2 \<or> version ctx = 3))"
    using assms by simp
  show ?thesis
    using assms transformAll_wellFormed [OF fall, of schema em]
    by (simp add: transformAll_fullDocument [OF fall] sections_def versionEntries_def)
qed

theorem raw_unknown_version_falls_through_witness:
  "rawSchema (sampleCtx 5 True) \<and> version (sampleCtx 5 True) \<noteq> 2
   \<and> version (sampleCtx 5 True) \<noteq> 3 \<and> wellFormed flatDoc
   \<and> transformAll sampleEm flatDoc (sampleCtx 5 True) =
       fullDocument sampleEm flatDoc (sampleCtx 5 True)
   \<and> transformAll sampleEm flatDoc (sampleCtx 5 True) =
       Some [(''paths'', []), (''operations'', []), (''express'', [])]"
  using raw_unknown_version_falls_through [of "sampleCtx 5 True" sampleEm flatDoc]
  by (simp add: sampleCtx_fields wellFormed_samples run_flatDoc_unknown)

text \<open>
  Claim C10. Outside raw-schema mode \<^verbatim>\<open>transformAll\<close> returns on every document on which
  no TypeError is thrown, and in every output it returns the keys operations and express
  are present, both the empty string when the registry is empty, while the key handlers is
  present exactly when the registry is not empty.
\<close>

theorem route_keys:
  assumes "\<not> rawSchema ctx"
  shows "(wellFormed schema \<longrightarrow> transformAll em schema ctx \<noteq> None)
    \<and> (\<forall>out. transformAll em schema ctx = Some out \<longrightarrow>
          ''operations'' \<in> set (map fst out) \<and> ''express'' \<in> set (map fst out)
          \<and> (registryOf em schema ctx = [] \<longrightarrow>
                map_of out ''operations'' = Some [] \<and> map_of out ''express'' = Some [])
          \<and> (''handlers'' \<in> set (map fst out) \<longleftrightarrow> registryOf em schema ctx \<noteq> []))"
proof (intro conjI allI impI)
  assume "wellFormed schema"
  then show "transformAll em schema ctx \<noteq> None"
    using assms by (simp add: transformAll_wellFormed)
next
  fix out
  assume "transformAll em schema ctx = Some out"
  then have out: "out = map (\<lambda>(k, v). (k, trim v)) (sections em schema ctx)"
    using assms by (intro transformAll_Some) simp_all
  have keys: "map fst out = map fst (sections em schema ctx)"
    by (simp add: out case_prod_unfold comp_def)
  show "''operations'' \<in> set (map fst out)" "''express'' \<in> set (map fst out)"
    unfolding keys sections_keys by simp_all
  show "''handlers'' \<in> set (map fst out) \<longleftrightarrow> registryOf em schema ctx \<noteq> []"
    unfolding keys sections_keys versionEntries_keys by simp
  assume "registryOf em schema ctx = []"
  then show "map_of out ''operations'' = Some []" "map_of out ''express'' = Some []"
    unfolding out map_of_trimmed sections_lookup
    by (simp_all add: operationsText_def expressRecords_def ownPropertyOrder_empty trim_def)
qed

theorem route_keys_witness:
  "\<not> rawSchema (sampleCtx 3 False) \<and> wellFormed postGetDoc
   \<and> map_option (map fst) (transformAll sampleEm postGetDoc (sampleCtx 3 False)) =
       Some [''paths'', ''components'', ''operations'', ''express'', ''handlers'']
   \<and> registryOf sampleEm postGetDoc (sampleCtx 3 False) \<noteq> []"
  using route_keys [of "sampleCtx 3 False" postGetDoc sampleEm]
  by (simp add: sampleCtx_fields wellFormed_samples registry_postGetDoc run_postGetDoc
      sections_def versionEntries_def)

end
